theory Spec2Isabelle
  imports Complex_Main
begin

section \<open>Numbers, optional fields and object spread\<close>

text \<open>
  The simulator is TypeScript; every quantity is a JavaScript \<open>number\<close>. The model takes
  numbers to be real numbers (no rounding, no overflow of \<open>Math.exp\<close>) and writes out the
  two ways in which the code leaves the reals: a property that is absent from an object
  (\<open>undefined\<close>, here \<open>None\<close>) and a result that is not a number (\<open>NaN\<close>).
\<close>

datatype jsnum = Num real | NaN

text \<open>\<open>v || d\<close> on a possibly absent number: \<open>undefined\<close>, \<open>NaN\<close> and \<open>0\<close> are falsy.\<close>

definition orElse :: "jsnum option \<Rightarrow> real \<Rightarrow> real" where
  "orElse v d = (case v of Some (Num x) \<Rightarrow> (if x = 0 then d else x) | _ \<Rightarrow> d)"

text \<open>\<open>v || false\<close> on a possibly absent boolean.\<close>

definition orFalse :: "bool option \<Rightarrow> bool" where
  "orFalse v = (case v of Some b \<Rightarrow> b | None \<Rightarrow> False)"

text \<open>\<open>a < b\<close> where \<open>a\<close> may be \<open>NaN\<close>: every comparison with \<open>NaN\<close> is false.\<close>

definition js_lt :: "jsnum \<Rightarrow> real \<Rightarrow> bool" where
  "js_lt a b = (case a of Num x \<Rightarrow> x < b | NaN \<Rightarrow> False)"

section \<open>Data model (types/index.ts)\<close>

text \<open>\<open>Record<LeverType, number>\<close>: one number for each of the twelve lever identifiers.\<close>

record levers =
  coal_feed :: real
  feedwater :: real
  boiler_pressure :: real
  steam_turbine :: real
  condenser :: real
  cooling_water :: real
  air_supply :: real
  fuel_injection :: real
  steam_flow :: real
  water_level :: real
  exhaust_gas :: real
  emergency_valve :: real

text \<open>
  \<open>Partial<SystemState>\<close>: every property may be absent. The record holds the properties
  that the calculation module and the store read or write; \<open>SystemResponse\<close>, the result
  type of the three stage functions, has a subset of these property names and is spread
  into objects of this type, so it is modelled by the same record. The properties
  \<open>previousMainSteamFlow\<close> \dots \<open>previousLoad\<close>, \<open>temperature\<close>, \<open>pressure\<close>,
  \<open>turbineRPM\<close> and \<open>generatorAirCoolerTemp\<close> of \<open>SystemState\<close> are touched by no function
  modelled here except the reset, and are left out.
\<close>

record SystemState =
  mainSteamFlow :: "jsnum option"
  mainSteamPressure :: "jsnum option"
  mainSteamTemp :: "jsnum option"
  turbineSpeed :: "jsnum option"
  load :: "jsnum option"
  frequency :: "jsnum option"
  condensateWaterFlow :: "jsnum option"
  circulatingWaterFlow :: "jsnum option"
  oilTankLevel :: "jsnum option"
  steamOutTurbineTemp :: "jsnum option"
  surgeTankTemp :: "jsnum option"
  condenserOutTemp :: "jsnum option"
  coolingWaterTemp :: "jsnum option"
  condenserPressure :: "jsnum option"
  feedwaterTemp :: "jsnum option"
  feedwaterPressure :: "jsnum option"
  heater1Temp :: "jsnum option"
  heater2Temp :: "jsnum option"
  heater3Temp :: "jsnum option"
  heater4Temp :: "jsnum option"
  generatorTemp :: "jsnum option"
  oilCoolerTemp :: "jsnum option"
  coalLoadingRate :: "jsnum option"
  combustionSpeed :: "jsnum option"
  waterLoadingRate :: "jsnum option"
  waterBoilingRate :: "jsnum option"
  steamGenerationRate :: "jsnum option"
  fuelConsumptionRate :: "jsnum option"
  efficiency :: "jsnum option"
  emissionsRate :: "jsnum option"
  heatRate :: "jsnum option"
  totalWattageProduced :: "jsnum option"
  trip :: "bool option"
  shutdownTime :: "jsnum option"
  turbineStatus :: "string option"
  generatorStatus :: "string option"
  condenserStatus :: "string option"
  heaterStatus :: "string option"
  targetMainSteamFlow :: "jsnum option"
  targetMainSteamPressure :: "jsnum option"
  targetMainSteamTemp :: "jsnum option"
  targetTurbineSpeed :: "jsnum option"
  targetLoad :: "jsnum option"
  powerOutput :: "jsnum option"
  isRunning :: "bool option"
  startTime :: "jsnum option"
  totalEarnings :: "jsnum option"
  lastUpdateTime :: "jsnum option"

text \<open>The empty object \<open>{}\<close>.\<close>

definition emptyState :: SystemState where
  "emptyState = \<lparr>
     mainSteamFlow = None, mainSteamPressure = None, mainSteamTemp = None,
     turbineSpeed = None, load = None, frequency = None, condensateWaterFlow = None,
     circulatingWaterFlow = None, oilTankLevel = None, steamOutTurbineTemp = None,
     surgeTankTemp = None, condenserOutTemp = None, coolingWaterTemp = None,
     condenserPressure = None, feedwaterTemp = None, feedwaterPressure = None,
     heater1Temp = None, heater2Temp = None, heater3Temp = None, heater4Temp = None,
     generatorTemp = None, oilCoolerTemp = None, coalLoadingRate = None,
     combustionSpeed = None, waterLoadingRate = None, waterBoilingRate = None,
     steamGenerationRate = None, fuelConsumptionRate = None, efficiency = None,
     emissionsRate = None, heatRate = None, totalWattageProduced = None, trip = None,
     shutdownTime = None, turbineStatus = None, generatorStatus = None,
     condenserStatus = None, heaterStatus = None, targetMainSteamFlow = None,
     targetMainSteamPressure = None, targetMainSteamTemp = None,
     targetTurbineSpeed = None, targetLoad = None, powerOutput = None, isRunning = None,
     startTime = None, totalEarnings = None, lastUpdateTime = None \<rparr>"

text \<open>One property of \<open>{ ...a, ...b }\<close>: the value in \<open>b\<close> when \<open>b\<close> has the property.\<close>

definition pick :: "'a option \<Rightarrow> 'a option \<Rightarrow> 'a option" where
  "pick x y = (case y of None \<Rightarrow> x | Some v \<Rightarrow> Some v)"

text \<open>The object spread \<open>{ ...a, ...b }\<close>.\<close>

definition spread :: "SystemState \<Rightarrow> SystemState \<Rightarrow> SystemState" where
  "spread a b = \<lparr>
     mainSteamFlow = pick (mainSteamFlow a) (mainSteamFlow b),
     mainSteamPressure = pick (mainSteamPressure a) (mainSteamPressure b),
     mainSteamTemp = pick (mainSteamTemp a) (mainSteamTemp b),
     turbineSpeed = pick (turbineSpeed a) (turbineSpeed b),
     load = pick (load a) (load b),
     frequency = pick (frequency a) (frequency b),
     condensateWaterFlow = pick (condensateWaterFlow a) (condensateWaterFlow b),
     circulatingWaterFlow = pick (circulatingWaterFlow a) (circulatingWaterFlow b),
     oilTankLevel = pick (oilTankLevel a) (oilTankLevel b),
     steamOutTurbineTemp = pick (steamOutTurbineTemp a) (steamOutTurbineTemp b),
     surgeTankTemp = pick (surgeTankTemp a) (surgeTankTemp b),
     condenserOutTemp = pick (condenserOutTemp a) (condenserOutTemp b),
     coolingWaterTemp = pick (coolingWaterTemp a) (coolingWaterTemp b),
     condenserPressure = pick (condenserPressure a) (condenserPressure b),
     feedwaterTemp = pick (feedwaterTemp a) (feedwaterTemp b),
     feedwaterPressure = pick (feedwaterPressure a) (feedwaterPressure b),
     heater1Temp = pick (heater1Temp a) (heater1Temp b),
     heater2Temp = pick (heater2Temp a) (heater2Temp b),
     heater3Temp = pick (heater3Temp a) (heater3Temp b),
     heater4Temp = pick (heater4Temp a) (heater4Temp b),
     generatorTemp = pick (generatorTemp a) (generatorTemp b),
     oilCoolerTemp = pick (oilCoolerTemp a) (oilCoolerTemp b),
     coalLoadingRate = pick (coalLoadingRate a) (coalLoadingRate b),
     combustionSpeed = pick (combustionSpeed a) (combustionSpeed b),
     waterLoadingRate = pick (waterLoadingRate a) (waterLoadingRate b),
     waterBoilingRate = pick (waterBoilingRate a) (waterBoilingRate b),
     steamGenerationRate = pick (steamGenerationRate a) (steamGenerationRate b),
     fuelConsumptionRate = pick (fuelConsumptionRate a) (fuelConsumptionRate b),
     efficiency = pick (efficiency a) (efficiency b),
     emissionsRate = pick (emissionsRate a) (emissionsRate b),
     heatRate = pick (heatRate a) (heatRate b),
     totalWattageProduced = pick (totalWattageProduced a) (totalWattageProduced b),
     trip = pick (trip a) (trip b),
     shutdownTime = pick (shutdownTime a) (shutdownTime b),
     turbineStatus = pick (turbineStatus a) (turbineStatus b),
     generatorStatus = pick (generatorStatus a) (generatorStatus b),
     condenserStatus = pick (condenserStatus a) (condenserStatus b),
     heaterStatus = pick (heaterStatus a) (heaterStatus b),
     targetMainSteamFlow = pick (targetMainSteamFlow a) (targetMainSteamFlow b),
     targetMainSteamPressure = pick (targetMainSteamPressure a) (targetMainSteamPressure b),
     targetMainSteamTemp = pick (targetMainSteamTemp a) (targetMainSteamTemp b),
     targetTurbineSpeed = pick (targetTurbineSpeed a) (targetTurbineSpeed b),
     targetLoad = pick (targetLoad a) (targetLoad b),
     powerOutput = pick (powerOutput a) (powerOutput b),
     isRunning = pick (isRunning a) (isRunning b),
     startTime = pick (startTime a) (startTime b),
     totalEarnings = pick (totalEarnings a) (totalEarnings b),
     lastUpdateTime = pick (lastUpdateTime a) (lastUpdateTime b) \<rparr>"

text \<open>
  \<open>CalculationParams\<close> of the calculation module: the twelve lever values and the
  optional calculated properties that callers add with \<open>{ ...params, load }\<close>. The
  optional ones, and the two whose names are also lever identifiers, carry the suffix
  \<open>_p\<close> because a property of the same name exists in another record.
\<close>

record CalculationParams =
  coalFeed :: real
  feedwater_p :: real
  boilerPressure :: real
  steamTurbine :: real
  condenser_p :: real
  coolingWater :: real
  airSupply :: real
  fuelInjection :: real
  steamFlow :: real
  waterLevel :: real
  exhaustGas :: real
  emergencyValve :: real
  mainSteamPressure_p :: "real option"
  mainSteamTemp_p :: "real option"
  turbineSpeed_p :: "real option"
  generatorTemp_p :: "real option"
  condenserOutTemp_p :: "real option"
  load_p :: "real option"

section \<open>The calculation module (first copy, with \<open>smoothApproach\<close>)\<close>

definition BOILER_EFFICIENCY_BASE :: real where "BOILER_EFFICIENCY_BASE = 0.85"
definition TURBINE_EFFICIENCY_BASE :: real where "TURBINE_EFFICIENCY_BASE = 0.88"
definition GENERATOR_EFFICIENCY :: real where "GENERATOR_EFFICIENCY = 0.98"
definition CONDENSER_PRESSURE_BASE :: real where "CONDENSER_PRESSURE_BASE = 5.0"
definition STEAM_TEMP_BASE :: real where "STEAM_TEMP_BASE = 540"
definition STEAM_PRESSURE_BASE :: real where "STEAM_PRESSURE_BASE = 16.5"
definition COAL_CALORIFIC_VALUE :: real where "COAL_CALORIFIC_VALUE = 25000"

text \<open>The entries of \<open>SMOOTH_FACTORS\<close> that the stage functions read.\<close>

definition SMOOTH_FACTORS_temperature :: real where "SMOOTH_FACTORS_temperature = 0.04"
definition SMOOTH_FACTORS_pressure :: real where "SMOOTH_FACTORS_pressure = 0.05"
definition SMOOTH_FACTORS_steamFlow :: real where "SMOOTH_FACTORS_steamFlow = 0.05"
definition SMOOTH_FACTORS_rpm :: real where "SMOOTH_FACTORS_rpm = 0.03"
definition SMOOTH_FACTORS_steamTurbine :: real where "SMOOTH_FACTORS_steamTurbine = 0.04"

text \<open>
  The store module declares \<open>smoothApproach\<close> a second time, with the same body. The
  definition below is the formula over the real numbers. In the code's double
  arithmetic \<open>1 - Math.exp(-x)\<close> is exactly 1 once \<open>x\<close> exceeds about 37 and exactly 0
  for \<open>x\<close> below about \<open>1e-16\<close>, so the code then returns \<open>target\<close> or \<open>current\<close>
  itself; whether a result differs from both is decided by that rounding, and nothing
  below states a strict inequality between the result and its two arguments as a
  property of the code. The equations at \<open>dt = 0\<close> and at a target of 0 and the
  non-strict bounds used below do not depend on it.
\<close>

definition smoothApproach :: "real \<Rightarrow> real \<Rightarrow> real \<Rightarrow> real \<Rightarrow> real" where
  "smoothApproach current target smoothFactor dt =
     current + (target - current) * (1 - exp (- smoothFactor * dt))"

subsection \<open>Indicator formulas\<close>

definition calculateBoilerEfficiency :: "CalculationParams \<Rightarrow> real" where
  "calculateBoilerEfficiency params =
     (let airFuelRatio = airSupply params / max (coalFeed params) 1;
          optimalRatio = 15.5;
          ratioEfficiency = max 0.7 (1 - \<bar>airFuelRatio - optimalRatio\<bar> / optimalRatio);
          levelEfficiency = min 1 (waterLevel params / 50);
          feedEfficiency = min 1 (coalFeed params / 80)
      in BOILER_EFFICIENCY_BASE * ratioEfficiency * levelEfficiency * feedEfficiency)"

definition calculateSteamGeneration :: "CalculationParams \<Rightarrow> real" where
  "calculateSteamGeneration params =
     (let coalEnergy = coalFeed params * COAL_CALORIFIC_VALUE;
          combustionEfficiency = calculateBoilerEfficiency params;
          heatToSteam = coalEnergy * combustionEfficiency;
          steamGeneration = heatToSteam / 2257
      in steamGeneration)"

text \<open>\<open>calculateFrequency(load, baseLoad = 600)\<close>; the optional argument is \<open>None\<close> when omitted.\<close>

definition calculateFrequency :: "real \<Rightarrow> real option \<Rightarrow> real" where
  "calculateFrequency load' baseLoad0 =
     (let baseLoad = (case baseLoad0 of None \<Rightarrow> 600 | Some b \<Rightarrow> b);
          loadRatio = load' / baseLoad;
          frequencyDeviation = (loadRatio - 1) * 0.5
      in 50 + frequencyDeviation)"

definition calculateFrequencyFromLoad :: "real \<Rightarrow> real" where
  "calculateFrequencyFromLoad load' = calculateFrequency load' None"

text \<open>\<open>Date.now()\<close> is an input of the model: the argument \<open>now\<close>, in milliseconds.\<close>

definition calculateOilTankLevel :: "real \<Rightarrow> CalculationParams \<Rightarrow> real" where
  "calculateOilTankLevel now params =
     (let baseLevel = 80;
          variation = sin (now / 10000) * 5
      in max 60 (min 95 (baseLevel + variation)))"

definition calculateSteamOutTurbineTemp :: "CalculationParams \<Rightarrow> real" where
  "calculateSteamOutTurbineTemp params =
     (let mainSteamTemp' = (case mainSteamTemp_p params of None \<Rightarrow> STEAM_TEMP_BASE | Some t \<Rightarrow> t);
          turbineSpeed' = (case turbineSpeed_p params of None \<Rightarrow> 0 | Some r \<Rightarrow> r);
          tempDrop = (turbineSpeed' / 3000) * 200;
          outletTemp = mainSteamTemp' - tempDrop
      in max 40 outletTemp)"

definition calculateSurgeTankTemp :: "CalculationParams \<Rightarrow> real" where
  "calculateSurgeTankTemp params =
     (let mainSteamTemp' = (case mainSteamTemp_p params of None \<Rightarrow> STEAM_TEMP_BASE | Some t \<Rightarrow> t);
          tempDrop = (steamFlow params / 100) * 20;
          surgeTemp = mainSteamTemp' - tempDrop
      in max 200 surgeTemp)"

definition calculateCondenserOutTemp :: "CalculationParams \<Rightarrow> real" where
  "calculateCondenserOutTemp params =
     (let baseTemp = 40;
          coolingEffect = (coolingWater params / 100) * 20;
          outletTemp = baseTemp - coolingEffect
      in max 20 outletTemp)"

definition calculateCoolingWaterTemp :: "CalculationParams \<Rightarrow> real" where
  "calculateCoolingWaterTemp params =
     (let condenserOutTemp' = (case condenserOutTemp_p params of None \<Rightarrow> 40 | Some t \<Rightarrow> t);
          waterTemp = condenserOutTemp' + 5
      in max 25 waterTemp)"

definition calculateCondenserPressure :: "CalculationParams \<Rightarrow> real" where
  "calculateCondenserPressure params =
     (let basePressure = CONDENSER_PRESSURE_BASE;
          coolingEffect = (coolingWater params / 100) * 2;
          pressure = basePressure - coolingEffect
      in max 1 pressure)"

text \<open>
  The next five functions read an optional property without a default. Arithmetic on
  \<open>undefined\<close> gives \<open>NaN\<close>, and \<open>Math.max\<close> and \<open>Math.min\<close> return \<open>NaN\<close> when an
  argument is \<open>NaN\<close>.
\<close>

definition calculateFeedwaterTemp :: "CalculationParams \<Rightarrow> jsnum" where
  "calculateFeedwaterTemp params =
     (case mainSteamTemp_p params of
        None \<Rightarrow> NaN
      | Some mainSteamTemp' \<Rightarrow>
          (let baseTemp = 150;
               steamEffect = (mainSteamTemp' / STEAM_TEMP_BASE) * 50;
               feedwaterTemp' = baseTemp + steamEffect
           in Num (max 50 (min 250 feedwaterTemp'))))"

definition calculateFeedwaterPressure :: "CalculationParams \<Rightarrow> jsnum" where
  "calculateFeedwaterPressure params =
     (case mainSteamPressure_p params of
        None \<Rightarrow> NaN
      | Some mainSteamPressure' \<Rightarrow>
          (let pressureRatio = feedwater_p params / 100;
               feedwaterPressure' = mainSteamPressure' * pressureRatio * 1.2
           in Num (max 0.1 feedwaterPressure')))"

definition calculateHeaterTemps :: "CalculationParams \<Rightarrow> jsnum \<times> jsnum \<times> jsnum \<times> jsnum" where
  "calculateHeaterTemps params =
     (case mainSteamTemp_p params of
        None \<Rightarrow> (NaN, NaN, NaN, NaN)
      | Some mainSteamTemp' \<Rightarrow>
          (let h1 = mainSteamTemp' * 0.9;
               h2 = mainSteamTemp' * 0.7;
               h3 = mainSteamTemp' * 0.5;
               h4 = mainSteamTemp' * 0.3
           in (Num h1, Num h2, Num h3, Num h4)))"

definition calculateGeneratorTemp :: "CalculationParams \<Rightarrow> jsnum" where
  "calculateGeneratorTemp params =
     (case load_p params of
        None \<Rightarrow> NaN
      | Some load' \<Rightarrow>
          (let baseTemp = 60;
               loadEffect = (load' / 600) * 40;
               generatorTemp' = baseTemp + loadEffect
           in Num (max 40 (min 100 generatorTemp'))))"

definition calculateOilCoolerTemp :: "CalculationParams \<Rightarrow> jsnum" where
  "calculateOilCoolerTemp params =
     (case turbineSpeed_p params of
        None \<Rightarrow> NaN
      | Some turbineSpeed' \<Rightarrow>
          (let baseTemp = 45;
               speedEffect = (turbineSpeed' / 3000) * 15;
               oilTemp = baseTemp + speedEffect
           in Num (max 35 (min 70 oilTemp))))"

definition calculateTotalWattageProduced :: "real \<Rightarrow> real \<Rightarrow> real" where
  "calculateTotalWattageProduced powerOutput' durationSeconds =
     powerOutput' * durationSeconds / 3600"

definition calculateCoalLoadingRate :: "CalculationParams \<Rightarrow> real" where
  "calculateCoalLoadingRate params = coalFeed params * 10"

definition calculateCombustionSpeed :: "CalculationParams \<Rightarrow> real" where
  "calculateCombustionSpeed params =
     (let baseSpeed = 50;
          coalEffect = (coalFeed params / 100) * 30;
          airEffect = (airSupply params / 100) * 20;
          combustionSpeed' = baseSpeed + coalEffect + airEffect
      in max 0 (min 100 combustionSpeed'))"

definition calculateWaterLoadingRate :: "CalculationParams \<Rightarrow> real" where
  "calculateWaterLoadingRate params = feedwater_p params * 5"

definition calculateWaterBoilingRate :: "CalculationParams \<Rightarrow> real" where
  "calculateWaterBoilingRate params =
     (let heatInput = coalFeed params * COAL_CALORIFIC_VALUE;
          waterAvailable = feedwater_p params * 1000;
          boilingRate = min (heatInput / 2257) waterAvailable
      in max 0 boilingRate)"

definition calculateSteamGenerationRate :: "CalculationParams \<Rightarrow> real" where
  "calculateSteamGenerationRate params = calculateSteamGeneration params"

definition calculateFuelConsumptionRate :: "CalculationParams \<Rightarrow> real" where
  "calculateFuelConsumptionRate params = coalFeed params * 0.1"

text \<open>
  \<open>calculateEfficiency\<close> divides by \<open>coalFeed * COAL_CALORIFIC_VALUE\<close>, which is zero when
  the coal feed is zero. In JavaScript \<open>x / 0\<close> is \<open>Infinity\<close> for \<open>x > 0\<close>, \<open>-Infinity\<close> for
  \<open>x < 0\<close> and \<open>NaN\<close> for \<open>x = 0\<close>; the clamp \<open>Math.max(0, Math.min(50, _))\<close> turns these
  into 50, 0 and \<open>NaN\<close>. (The divisor is taken to be \<open>+0\<close>, as it is for a lever value 0.)
\<close>

definition calculateEfficiency :: "CalculationParams \<Rightarrow> jsnum" where
  "calculateEfficiency params =
     (case load_p params of
        None \<Rightarrow> NaN
      | Some load' \<Rightarrow>
          (let electricalOutput = load' * 3600;
               heatInput = coalFeed params * COAL_CALORIFIC_VALUE
           in if heatInput = 0
              then (if electricalOutput > 0 then Num 50
                    else if electricalOutput < 0 then Num 0 else NaN)
              else (let efficiency' = (electricalOutput / heatInput) * 100
                    in Num (max 0 (min 50 efficiency')))))"

definition calculateEmissionsRate :: "CalculationParams \<Rightarrow> real" where
  "calculateEmissionsRate params =
     (let combustionEfficiency = calculateBoilerEfficiency params;
          baseEmissions = coalFeed params * 2;
          efficiencyEffect = 1 - combustionEfficiency;
          emissions = baseEmissions * efficiencyEffect
      in max 0 emissions)"

definition calculateHeatRate :: "CalculationParams \<Rightarrow> jsnum" where
  "calculateHeatRate params =
     (case load_p params of
        None \<Rightarrow> NaN
      | Some load' \<Rightarrow>
          (let fuelConsumption = coalFeed params * COAL_CALORIFIC_VALUE;
               electricalOutput = load' * 3600;
               heatRate' = fuelConsumption / max electricalOutput 1
           in Num (max 8000 (min 12000 heatRate'))))"

subsection \<open>The three stages\<close>

text \<open>
  Each stage returns an object literal; the properties it sets are \<open>Some\<close>, all others
  stay absent. Locals of the source that no result depends on (the water-level
  dynamics of the boiler stage, \<open>feedRate\<close>, \<open>coolingRate\<close>) are not bound here; the
  \<open>frequency\<close> local of the turbine stage is kept, to show that it is not returned.
\<close>

definition calculateBoilerResponse ::
  "CalculationParams \<Rightarrow> SystemState \<Rightarrow> real \<Rightarrow> SystemState" where
  "calculateBoilerResponse params currentState deltaTime =
     (let currentTemp = orElse (mainSteamTemp currentState) STEAM_TEMP_BASE;
          currentPressure = orElse (mainSteamPressure currentState) STEAM_PRESSURE_BASE;
          currentFlow = orElse (mainSteamFlow currentState) 0;
          fuelRate = coalFeed params / 100;
          airRate = airSupply params / 100;
          stoichiometricRatio = 15.5;
          actualRatio = airRate / max fuelRate 0.01;
          ratioEfficiency =
            max 0.4 (1 - \<bar>actualRatio - stoichiometricRatio\<bar> / stoichiometricRatio);
          combustionEfficiency = ratioEfficiency * (0.7 + fuelRate * 0.3);
          heatInput = fuelRate * COAL_CALORIFIC_VALUE * combustionEfficiency;
          heatLoss = currentTemp * 0.02 * deltaTime;
          netHeat = heatInput - heatLoss;
          tempChange = (netHeat / (4.186 * 1000)) * deltaTime / 3600;
          targetTemp = currentTemp + tempChange;
          newTemp = smoothApproach currentTemp targetTemp SMOOTH_FACTORS_temperature deltaTime;
          saturationPressure = (newTemp / 100) ^ 4 * 0.1;
          targetPressure = saturationPressure * (1 + fuelRate * 0.5);
          newPressure =
            smoothApproach currentPressure targetPressure SMOOTH_FACTORS_pressure deltaTime;
          maxSteamFlow = fuelRate * 500;
          steamEfficiency = min 1 (newTemp / STEAM_TEMP_BASE) * combustionEfficiency;
          targetSteamFlow = maxSteamFlow * steamEfficiency;
          newSteamFlow =
            smoothApproach currentFlow targetSteamFlow SMOOTH_FACTORS_steamFlow deltaTime
      in emptyState\<lparr>
           mainSteamFlow := Some (Num newSteamFlow),
           mainSteamTemp := Some (Num newTemp),
           mainSteamPressure := Some (Num newPressure),
           targetMainSteamFlow := Some (Num targetSteamFlow),
           targetMainSteamTemp := Some (Num (newTemp + tempChange)),
           targetMainSteamPressure := Some (Num (saturationPressure * (1 + fuelRate * 0.5)))\<rparr>)"

definition calculateTurbineResponse ::
  "CalculationParams \<Rightarrow> SystemState \<Rightarrow> real \<Rightarrow> SystemState" where
  "calculateTurbineResponse params currentState deltaTime =
     (let mainSteamPressure' = orElse (mainSteamPressure currentState) STEAM_PRESSURE_BASE;
          mainSteamTemp' = orElse (mainSteamTemp currentState) STEAM_TEMP_BASE;
          mainSteamFlow' = orElse (mainSteamFlow currentState) 0;
          currentRPM = orElse (turbineSpeed currentState) 1800;
          currentLoad = orElse (load currentState) 0;
          valveOpening = steamTurbine params / 100;
          loadDemand = steamFlow params / 100;
          steamEnthalpy = 2.0 * mainSteamTemp' + 2500;
          condenserEnthalpy = 2.0 * 40 + 2500;
          availableWork = steamEnthalpy - condenserEnthalpy;
          pressureRatio = mainSteamPressure' / 5.0;
          isentropicEfficiency = TURBINE_EFFICIENCY_BASE * (0.8 + valveOpening * 0.2);
          actualEfficiency = isentropicEfficiency * min 1 (pressureRatio / 3);
          steamPower = mainSteamFlow' * availableWork * actualEfficiency / 3600;
          maxMechanicalPower = steamPower * valveOpening;
          targetRPM = 3000 * (maxMechanicalPower / 600);
          newRPM = smoothApproach currentRPM targetRPM SMOOTH_FACTORS_rpm deltaTime;
          maxElectricalPower = maxMechanicalPower * GENERATOR_EFFICIENCY;
          targetLoad' = min maxElectricalPower (loadDemand * 600);
          newLoad = smoothApproach currentLoad targetLoad' SMOOTH_FACTORS_steamTurbine deltaTime;
          frequency' = 50 + (newRPM - 3000) / 60
      in emptyState\<lparr>
           turbineSpeed := Some (Num newRPM),
           load := Some (Num newLoad),
           targetTurbineSpeed := Some (Num targetRPM),
           targetLoad := Some (Num targetLoad')\<rparr>)"

definition calculateWaterSystemResponse ::
  "CalculationParams \<Rightarrow> SystemState \<Rightarrow> real \<Rightarrow> SystemState" where
  "calculateWaterSystemResponse params currentState deltaTime =
     (let load' = orElse (load currentState) 0;
          feed = feedwater_p params / 50;
          cool = coolingWater params / 50;
          condensateFlow = load' * 2;
          circulatingWater = 1000 * cool
      in emptyState\<lparr>
           condensateWaterFlow := Some (Num condensateFlow),
           circulatingWaterFlow := Some (Num circulatingWater)\<rparr>)"

subsection \<open>\<open>calculateSystemState\<close>\<close>

text \<open>
  \<open>calculateSystemState(leverValues, currentState?, deltaTime = 0.1)\<close>. The optional
  arguments are \<open>None\<close> when omitted; \<open>currentState?.p\<close> is \<open>Option.bind currentState p\<close>.
  The shutdown block returns early: \<open>shutdownReturn\<close> is \<open>Some\<close> of the returned object
  when the block is entered and \<open>None\<close> when control falls through. Its condition
  \<open>currentState?.shutdownTime && currentState.shutdownTime > 0\<close> needs a truthy (present,
  not \<open>NaN\<close>, nonzero) countdown that is positive.
\<close>

definition calculateSystemState ::
  "real \<Rightarrow> levers \<Rightarrow> SystemState option \<Rightarrow> real option \<Rightarrow> SystemState" where
  "calculateSystemState now leverValues0 currentState deltaTime0 =
     (let deltaTime = (case deltaTime0 of None \<Rightarrow> 0.1 | Some d \<Rightarrow> d);
          boilerTemp = orElse (Option.bind currentState mainSteamTemp) STEAM_TEMP_BASE;
          waterLevel' = (60 :: real);
          currentTurbineRPM = orElse (Option.bind currentState turbineSpeed) 1800;
          trip0 = orFalse (Option.bind currentState trip);
          trip' = (if boilerTemp > 620 \<or> waterLevel' < 8 \<or> waterLevel' > 95
                      \<or> currentTurbineRPM > 3600
                   then True else trip0);
          shutdownReturn =
            (case Option.bind currentState shutdownTime of
               Some (Num st) \<Rightarrow>
                 if st \<noteq> 0 \<and> st > 0 then
                   (let shutdownTime' = st - deltaTime;
                        shutdownFactor = max 0 (shutdownTime' / 10)
                    in Some (emptyState\<lparr>
                         trip := Some True,
                         shutdownTime := Some (Num (max 0 shutdownTime')),
                         mainSteamTemp := Some (Num (boilerTemp * 0.995)),
                         turbineSpeed := Some (Num
                           (orElse (Option.bind currentState turbineSpeed) 1800 * 0.98)),
                         load := Some (Num
                           (orElse (Option.bind currentState load) 0 * shutdownFactor)),
                         mainSteamFlow := Some (Num
                           (orElse (Option.bind currentState mainSteamFlow) 0 * shutdownFactor)),
                         mainSteamPressure := Some (Num
                           (orElse (Option.bind currentState mainSteamPressure)
                              STEAM_PRESSURE_BASE * shutdownFactor))\<rparr>))
                 else None
             | _ \<Rightarrow> None)
      in case shutdownReturn of
           Some result \<Rightarrow> result
         | None \<Rightarrow>
          (let leverValues =
                 (if trip' then leverValues0\<lparr>coal_feed := 0, steam_turbine := 0\<rparr>
                  else leverValues0);
               params = \<lparr>
                 coalFeed = coal_feed leverValues,
                 feedwater_p = feedwater leverValues,
                 boilerPressure = boiler_pressure leverValues,
                 steamTurbine = steam_turbine leverValues,
                 condenser_p = condenser leverValues,
                 coolingWater = cooling_water leverValues,
                 airSupply = air_supply leverValues,
                 fuelInjection = fuel_injection leverValues,
                 steamFlow = steam_flow leverValues,
                 waterLevel = water_level leverValues,
                 exhaustGas = exhaust_gas leverValues,
                 emergencyValve = emergency_valve leverValues,
                 mainSteamPressure_p = None, mainSteamTemp_p = None, turbineSpeed_p = None,
                 generatorTemp_p = None, condenserOutTemp_p = None, load_p = None\<rparr>;
               current =
                 (case currentState of
                    Some s \<Rightarrow> s
                  | None \<Rightarrow> emptyState\<lparr>
                      mainSteamFlow := Some (Num 0),
                      mainSteamPressure := Some (Num STEAM_PRESSURE_BASE),
                      mainSteamTemp := Some (Num STEAM_TEMP_BASE),
                      turbineSpeed := Some (Num 0),
                      load := Some (Num 0),
                      condensateWaterFlow := Some (Num 0),
                      circulatingWaterFlow := Some (Num 1000)\<rparr>);
               boilerResponse = calculateBoilerResponse params current deltaTime;
               turbineResponse =
                 calculateTurbineResponse params (spread current boilerResponse) deltaTime;
               waterResponse =
                 calculateWaterSystemResponse params
                   (spread (spread current boilerResponse) turbineResponse) deltaTime;
               mainSteamFlow' = orElse (mainSteamFlow boilerResponse) 0;
               mainSteamPressure' = orElse (mainSteamPressure boilerResponse) STEAM_PRESSURE_BASE;
               mainSteamTemp' = orElse (mainSteamTemp boilerResponse) STEAM_TEMP_BASE;
               turbineSpeed' = orElse (turbineSpeed turbineResponse) 0;
               load' = orElse (load turbineResponse) 0;
               condensateWaterFlow' = orElse (condensateWaterFlow waterResponse) 0;
               circulatingWaterFlow' = orElse (circulatingWaterFlow waterResponse) 1000;
               frequency' = calculateFrequencyFromLoad load';
               oilTankLevel' = calculateOilTankLevel now params;
               steamOutTurbineTemp' = calculateSteamOutTurbineTemp
                 (params\<lparr>mainSteamTemp_p := Some mainSteamTemp',
                          turbineSpeed_p := Some turbineSpeed'\<rparr>);
               surgeTankTemp' = calculateSurgeTankTemp
                 (params\<lparr>mainSteamTemp_p := Some mainSteamTemp', steamFlow := mainSteamFlow'\<rparr>);
               condenserOutTemp' = calculateCondenserOutTemp params;
               coolingWaterTemp' = calculateCoolingWaterTemp
                 (params\<lparr>condenserOutTemp_p := Some condenserOutTemp'\<rparr>);
               condenserPressure' = calculateCondenserPressure params;
               feedwaterTemp' = calculateFeedwaterTemp params;
               feedwaterPressure' = calculateFeedwaterPressure
                 (params\<lparr>mainSteamPressure_p := Some mainSteamPressure'\<rparr>);
               heaterTemps = calculateHeaterTemps
                 (params\<lparr>mainSteamTemp_p := Some mainSteamTemp'\<rparr>);
               generatorTemp' = calculateGeneratorTemp (params\<lparr>load_p := Some load'\<rparr>);
               oilCoolerTemp' = calculateOilCoolerTemp
                 (params\<lparr>turbineSpeed_p := Some turbineSpeed'\<rparr>);
               coalLoadingRate' = calculateCoalLoadingRate params;
               combustionSpeed' = calculateCombustionSpeed params;
               waterLoadingRate' = calculateWaterLoadingRate params;
               waterBoilingRate' = calculateWaterBoilingRate params;
               steamGenerationRate' = calculateSteamGenerationRate params;
               fuelConsumptionRate' = calculateFuelConsumptionRate params;
               efficiency' = calculateEfficiency (params\<lparr>load_p := Some load'\<rparr>);
               emissionsRate' = calculateEmissionsRate params;
               heatRate' = calculateHeatRate (params\<lparr>load_p := Some load'\<rparr>);
               totalWattageProduced' = calculateTotalWattageProduced load' deltaTime;
               turbineStatus' = (if turbineSpeed' > 0 then ''running'' else ''stopped'');
               generatorStatus' = (if load' > 0 then ''online'' else ''offline'');
               condenserStatus' = (if condenserOutTemp' < 50 then ''normal'' else ''high_temp'');
               heaterStatus' =
                 (if js_lt (fst heaterTemps) 200 then ''normal'' else ''high_temp'')
           in emptyState\<lparr>
                mainSteamFlow := Some (Num mainSteamFlow'),
                mainSteamPressure := Some (Num mainSteamPressure'),
                mainSteamTemp := Some (Num mainSteamTemp'),
                turbineSpeed := Some (Num turbineSpeed'),
                load := Some (Num load'),
                frequency := Some (Num frequency'),
                condensateWaterFlow := Some (Num condensateWaterFlow'),
                circulatingWaterFlow := Some (Num circulatingWaterFlow'),
                oilTankLevel := Some (Num oilTankLevel'),
                steamOutTurbineTemp := Some (Num steamOutTurbineTemp'),
                surgeTankTemp := Some (Num surgeTankTemp'),
                condenserOutTemp := Some (Num condenserOutTemp'),
                coolingWaterTemp := Some (Num coolingWaterTemp'),
                condenserPressure := Some (Num condenserPressure'),
                feedwaterTemp := Some feedwaterTemp',
                feedwaterPressure := Some feedwaterPressure',
                heater1Temp := Some (fst heaterTemps),
                heater2Temp := Some (fst (snd heaterTemps)),
                heater3Temp := Some (fst (snd (snd heaterTemps))),
                heater4Temp := Some (snd (snd (snd heaterTemps))),
                generatorTemp := Some generatorTemp',
                oilCoolerTemp := Some oilCoolerTemp',
                coalLoadingRate := Some (Num coalLoadingRate'),
                combustionSpeed := Some (Num combustionSpeed'),
                waterLoadingRate := Some (Num waterLoadingRate'),
                waterBoilingRate := Some (Num waterBoilingRate'),
                steamGenerationRate := Some (Num steamGenerationRate'),
                fuelConsumptionRate := Some (Num fuelConsumptionRate'),
                efficiency := Some efficiency',
                emissionsRate := Some (Num emissionsRate'),
                heatRate := Some heatRate',
                totalWattageProduced := Some (Num totalWattageProduced'),
                trip := Some trip',
                turbineStatus := Some turbineStatus',
                generatorStatus := Some generatorStatus',
                condenserStatus := Some condenserStatus',
                heaterStatus := Some heaterStatus'\<rparr>))"

subsection \<open>\<open>calculateEarnings\<close>\<close>

definition calculateEarnings :: "real \<Rightarrow> real \<Rightarrow> real" where
  "calculateEarnings powerOutput' durationSeconds =
     (let powerMWh = powerOutput' * durationSeconds / 3600;
          ratePerMWh = 1000000
      in powerMWh * ratePerMWh)"

text \<open>
  The second copy of the calculation module (the one that smooths with
  \<open>interpolateValue\<close>) has its own \<open>calculateEarnings\<close>, with another price and a clamp.
\<close>

definition calculateEarnings_v2 :: "real \<Rightarrow> real \<Rightarrow> real" where
  "calculateEarnings_v2 powerOutput' durationSeconds =
     (let electricityPrice = 0.01;
          energyKWh = (powerOutput' * 1000) * (durationSeconds / 3600);
          earnings = energyKWh * electricityPrice
      in max 0 earnings)"

section \<open>The store (simulatorStore.ts)\<close>

text \<open>
  The store keeps one \<open>SystemState\<close>; the model is that object. The levers are an input
  of the recomputation (the vector \<open>leverValues\<close> that the store builds from them), and
  the timers that schedule the recomputation are not modelled. \<open>initialSystemState\<close>
  reads \<open>Date.now()\<close> once, when the module is loaded: the argument \<open>loadTime\<close>. Its
  \<open>startTime: null\<close> is \<open>None\<close>: \<open>null\<close> is falsy like \<open>undefined\<close>, and no object
  holding it is spread over another one.
\<close>

definition initialSystemState :: "real \<Rightarrow> SystemState" where
  "initialSystemState loadTime = \<lparr>
     mainSteamFlow = Some (Num 0), mainSteamPressure = Some (Num 0),
     mainSteamTemp = Some (Num 0), turbineSpeed = Some (Num 0), load = Some (Num 0),
     frequency = Some (Num 0), condensateWaterFlow = Some (Num 0),
     circulatingWaterFlow = Some (Num 0), oilTankLevel = Some (Num 0),
     steamOutTurbineTemp = Some (Num 0), surgeTankTemp = Some (Num 0),
     condenserOutTemp = Some (Num 0), coolingWaterTemp = Some (Num 0),
     condenserPressure = Some (Num 0), feedwaterTemp = Some (Num 0),
     feedwaterPressure = Some (Num 0), heater1Temp = Some (Num 0),
     heater2Temp = Some (Num 0), heater3Temp = Some (Num 0), heater4Temp = Some (Num 0),
     generatorTemp = Some (Num 0), oilCoolerTemp = Some (Num 0),
     coalLoadingRate = Some (Num 0), combustionSpeed = Some (Num 0),
     waterLoadingRate = Some (Num 0), waterBoilingRate = Some (Num 0),
     steamGenerationRate = Some (Num 0), fuelConsumptionRate = Some (Num 0),
     efficiency = Some (Num 0), emissionsRate = Some (Num 0), heatRate = Some (Num 0),
     totalWattageProduced = Some (Num 0), trip = Some False, shutdownTime = Some (Num 0),
     turbineStatus = Some ''stopped'', generatorStatus = Some ''offline'',
     condenserStatus = Some ''normal'', heaterStatus = Some ''normal'',
     targetMainSteamFlow = Some (Num 0), targetMainSteamPressure = Some (Num 16.5),
     targetMainSteamTemp = Some (Num 540), targetTurbineSpeed = Some (Num 0),
     targetLoad = Some (Num 0), powerOutput = Some (Num 0), isRunning = Some False,
     startTime = None, totalEarnings = Some (Num 0),
     lastUpdateTime = Some (Num loadTime) \<rparr>"

text \<open>
  The recomputation that \<open>updateLever\<close> schedules. \<open>Date.now()\<close> is read three times: for
  \<open>currentTime\<close>, inside \<open>calculateSystemState\<close> (\<open>nowOil\<close>) and for the run duration
  (\<open>nowRun\<close>).
\<close>

definition updateLever_recompute ::
  "real \<Rightarrow> real \<Rightarrow> real \<Rightarrow> levers \<Rightarrow> SystemState \<Rightarrow> SystemState" where
  "updateLever_recompute currentTime nowOil nowRun leverValues s =
     (let lastUpdateTime' = orElse (lastUpdateTime s) currentTime;
          deltaTime = (currentTime - lastUpdateTime') / 1000;
          newSystemState = calculateSystemState nowOil leverValues (Some s) (Some deltaTime);
          durationSeconds =
            (case startTime s of
               Some (Num t) \<Rightarrow> (if t \<noteq> 0 then (nowRun - t) / 1000 else 0)
             | _ \<Rightarrow> 0);
          earnings = calculateEarnings (orElse (powerOutput newSystemState) 0) durationSeconds;
          totalWattageProduced' =
            orElse (powerOutput newSystemState) 0 * 1000 * durationSeconds / 3600 * 1000;
          turbineStatus' =
            (if orElse (turbineSpeed newSystemState) 0 > 0 then ''running'' else ''stopped'');
          generatorStatus' =
            (if orElse (load newSystemState) 0 > 0 then ''online'' else ''offline'');
          condenserStatus' =
            (if orElse (condenserOutTemp newSystemState) 0 > 70 then ''high_temp''
             else ''normal'');
          heaterStatus' =
            (if orElse (heater1Temp newSystemState) 0 > 200 then ''high_temp'' else ''normal'')
      in (spread s newSystemState)\<lparr>
           totalEarnings := Some (Num earnings),
           totalWattageProduced := Some (Num totalWattageProduced'),
           lastUpdateTime := Some (Num currentTime),
           turbineStatus := Some turbineStatus',
           generatorStatus := Some generatorStatus',
           condenserStatus := Some condenserStatus',
           heaterStatus := Some heaterStatus'\<rparr>)"

definition startSystem :: "real \<Rightarrow> SystemState \<Rightarrow> SystemState" where
  "startSystem now s =
     s\<lparr>isRunning := Some True, startTime := Some (Num (orElse (startTime s) now))\<rparr>"

definition stopSystem :: "SystemState \<Rightarrow> SystemState" where
  "stopSystem s = s\<lparr>isRunning := Some False\<rparr>"

definition resetSystem :: "real \<Rightarrow> SystemState" where
  "resetSystem loadTime =
     (initialSystemState loadTime)\<lparr>trip := Some False, shutdownTime := Some (Num 0)\<rparr>"

definition shutdownSystem :: "SystemState \<Rightarrow> SystemState" where
  "shutdownSystem s = s\<lparr>shutdownTime := Some (Num 10), trip := Some True\<rparr>"

text \<open>\<open>updateEarnings\<close> passes \<open>powerOutput\<close> as it is; on a missing number the product is \<open>NaN\<close>.\<close>

definition updateEarnings :: "real \<Rightarrow> SystemState \<Rightarrow> SystemState" where
  "updateEarnings currentTime s =
     (if \<not> orFalse (isRunning s) \<or> orElse (startTime s) 0 = 0 then s
      else (let durationSeconds = (currentTime - orElse (startTime s) 0) / 1000;
                newEarnings =
                  (case powerOutput s of
                     Some (Num p) \<Rightarrow> Num (calculateEarnings p durationSeconds)
                   | _ \<Rightarrow> NaN)
            in s\<lparr>totalEarnings := Some newEarnings\<rparr>))"

text \<open>
  One action of the store other than the reset. The states reachable from \<open>s\<close> without a
  reset are those related to \<open>s\<close> by the reflexive transitive closure of \<open>storeStep\<close>.
\<close>

inductive storeStep :: "SystemState \<Rightarrow> SystemState \<Rightarrow> bool" where
  step_recompute: "storeStep s (updateLever_recompute currentTime nowOil nowRun leverValues s)"
| step_start: "storeStep s (startSystem now s)"
| step_stop: "storeStep s (stopSystem s)"
| step_shutdown: "storeStep s (shutdownSystem s)"
| step_earnings: "storeStep s (updateEarnings currentTime s)"

section \<open>Vocabulary of the properties\<close>

text \<open>
  The shutdown block of \<open>calculateSystemState\<close> is entered: the previous state has a
  countdown that is a positive number.
\<close>

definition shuttingDown :: "SystemState option \<Rightarrow> bool" where
  "shuttingDown cs =
     (case Option.bind cs shutdownTime of Some (Num st) \<Rightarrow> st > 0 | _ \<Rightarrow> False)"

text \<open>Two lever vectors that agree on every channel other than \<open>coal_feed\<close> and \<open>steam_turbine\<close>.\<close>

definition agreeOffFuelThrottle :: "levers \<Rightarrow> levers \<Rightarrow> bool" where
  "agreeOffFuelThrottle a b =
     (feedwater a = feedwater b \<and> boiler_pressure a = boiler_pressure b \<and>
      condenser a = condenser b \<and> cooling_water a = cooling_water b \<and>
      air_supply a = air_supply b \<and> fuel_injection a = fuel_injection b \<and>
      steam_flow a = steam_flow b \<and> water_level a = water_level b \<and>
      exhaust_gas a = exhaust_gas b \<and> emergency_valve a = emergency_valve b)"

text \<open>Every lever value lies in the range 0 to 100 that the store clamps to.\<close>

definition leversInRange :: "levers \<Rightarrow> bool" where
  "leversInRange l =
     (0 \<le> coal_feed l \<and> coal_feed l \<le> 100 \<and> 0 \<le> feedwater l \<and> feedwater l \<le> 100 \<and>
      0 \<le> boiler_pressure l \<and> boiler_pressure l \<le> 100 \<and>
      0 \<le> steam_turbine l \<and> steam_turbine l \<le> 100 \<and>
      0 \<le> condenser l \<and> condenser l \<le> 100 \<and>
      0 \<le> cooling_water l \<and> cooling_water l \<le> 100 \<and>
      0 \<le> air_supply l \<and> air_supply l \<le> 100 \<and>
      0 \<le> fuel_injection l \<and> fuel_injection l \<le> 100 \<and>
      0 \<le> steam_flow l \<and> steam_flow l \<le> 100 \<and>
      0 \<le> water_level l \<and> water_level l \<le> 100 \<and>
      0 \<le> exhaust_gas l \<and> exhaust_gas l \<le> 100 \<and>
      0 \<le> emergency_valve l \<and> emergency_valve l \<le> 100)"

text \<open>The lever vector with every channel at the value \<open>v\<close>.\<close>

definition allLevers :: "real \<Rightarrow> levers" where
  "allLevers v = \<lparr> coal_feed = v, feedwater = v, boiler_pressure = v, steam_turbine = v,
     condenser = v, cooling_water = v, air_supply = v, fuel_injection = v, steam_flow = v,
     water_level = v, exhaust_gas = v, emergency_valve = v \<rparr>"

text \<open>
  The droop formula in the words of the specification: 50 Hz plus the turbine speed less
  the rated 3000 RPM, over 60.
\<close>

definition droopFrequency :: "jsnum option \<Rightarrow> jsnum option" where
  "droopFrequency speed =
     (case speed of Some (Num r) \<Rightarrow> Some (Num (50 + (r - 3000) / 60)) | _ \<Rightarrow> None)"

text \<open>
  The value of the local \<open>trip\<close> of \<open>calculateSystemState\<close> after the trip check: the
  previous \<open>trip\<close>, or a previous steam temperature above 620, or a previous turbine
  speed above 3600 (each read with its \<open>||\<close> default). The two water-level tests of
  the check compare the constant 60 and contribute nothing.
\<close>

definition tripped :: "SystemState option \<Rightarrow> bool" where
  "tripped cs =
     (orFalse (Option.bind cs trip)
      \<or> orElse (Option.bind cs mainSteamTemp) STEAM_TEMP_BASE > 620
      \<or> orElse (Option.bind cs turbineSpeed) 1800 > 3600)"

text \<open>The time step that a call uses: the default 0.1 when the argument is omitted.\<close>

definition deltaTimeOf :: "real option \<Rightarrow> real" where
  "deltaTimeOf dt = (case dt of None \<Rightarrow> 0.1 | Some d \<Rightarrow> d)"

text \<open>The lever vector that reaches the stages: fuel and throttle at zero once tripped.\<close>

definition forcedLevers :: "SystemState option \<Rightarrow> levers \<Rightarrow> levers" where
  "forcedLevers cs lv = (if tripped cs then lv\<lparr>coal_feed := 0, steam_turbine := 0\<rparr> else lv)"

text \<open>The \<open>params\<close> object that \<open>calculateSystemState\<close> builds from a lever vector.\<close>

definition leverParams :: "levers \<Rightarrow> CalculationParams" where
  "leverParams leverValues = \<lparr>
     coalFeed = coal_feed leverValues,
     feedwater_p = feedwater leverValues,
     boilerPressure = boiler_pressure leverValues,
     steamTurbine = steam_turbine leverValues,
     condenser_p = condenser leverValues,
     coolingWater = cooling_water leverValues,
     airSupply = air_supply leverValues,
     fuelInjection = fuel_injection leverValues,
     steamFlow = steam_flow leverValues,
     waterLevel = water_level leverValues,
     exhaustGas = exhaust_gas leverValues,
     emergencyValve = emergency_valve leverValues,
     mainSteamPressure_p = None, mainSteamTemp_p = None, turbineSpeed_p = None,
     generatorTemp_p = None, condenserOutTemp_p = None, load_p = None\<rparr>"

text \<open>
  The frequency that \<open>calculateFrequencyFromLoad\<close> gives for a load: 50 Hz plus half of
  the load's relative deviation from 600 MW.
\<close>

definition loadFrequency :: "jsnum option \<Rightarrow> jsnum option" where
  "loadFrequency l =
     (case l of Some (Num x) \<Rightarrow> Some (Num (50 + (x / 600 - 1) * 0.5)) | _ \<Rightarrow> None)"

text \<open>A property is present, is a number, and is at least (at most) a bound.\<close>

definition numGe :: "real \<Rightarrow> jsnum option \<Rightarrow> bool" where
  "numGe lo v = (case v of Some (Num x) \<Rightarrow> lo \<le> x | _ \<Rightarrow> False)"

definition numLe :: "real \<Rightarrow> jsnum option \<Rightarrow> bool" where
  "numLe hi v = (case v of Some (Num x) \<Rightarrow> x \<le> hi | _ \<Rightarrow> False)"

section \<open>Properties\<close>

subsection \<open>Reading the output of \<open>calculateSystemState\<close>\<close>

lemma orElse_zero_default: "orElse (Some (Num x)) 0 = x"
  by (simp add: orElse_def)

lemma orElse_nonzero: "d \<noteq> 0 \<Longrightarrow> orElse v d \<noteq> 0"
  by (simp add: orElse_def split: option.splits jsnum.splits)

lemma spread_keeps:
  "turbineSpeed b = None \<Longrightarrow> turbineSpeed (spread a b) = turbineSpeed a"
  "load b = None \<Longrightarrow> load (spread a b) = load a"
  by (simp_all add: spread_def pick_def)

lemma smoothApproach_zero_dt: "smoothApproach c t r 0 = c"
  by (simp add: smoothApproach_def)

lemma smoothApproach_to_zero: "smoothApproach c 0 r d = c * exp (- r * d)"
  by (simp add: smoothApproach_def algebra_simps)

text \<open>The \<open>trip\<close> property of the result, in both branches.\<close>

lemma trip_out:
  "trip (calculateSystemState now lv cs dt) = Some (shuttingDown cs \<or> tripped cs)"
  by (simp add: calculateSystemState_def Let_def shuttingDown_def tripped_def
        split: option.splits jsnum.splits)

text \<open>The object returned by the shutdown block.\<close>

lemma shutdown_result:
  assumes "shutdownTime s = Some (Num st)" and "st > 0"
  shows "calculateSystemState now lv (Some s) (Some dt) =
     emptyState\<lparr>
       trip := Some True,
       shutdownTime := Some (Num (max 0 (st - dt))),
       mainSteamTemp := Some (Num (orElse (mainSteamTemp s) STEAM_TEMP_BASE * 0.995)),
       turbineSpeed := Some (Num (orElse (turbineSpeed s) 1800 * 0.98)),
       load := Some (Num (orElse (load s) 0 * max 0 ((st - dt) / 10))),
       mainSteamFlow := Some (Num (orElse (mainSteamFlow s) 0 * max 0 ((st - dt) / 10))),
       mainSteamPressure := Some (Num
         (orElse (mainSteamPressure s) STEAM_PRESSURE_BASE * max 0 ((st - dt) / 10)))\<rparr>"
  using assms unfolding calculateSystemState_def
  by (simp only: Let_def Option.bind.simps option.case jsnum.case) simp

text \<open>The primary properties of the result outside the shutdown block.\<close>

lemma normal_boiler:
  assumes "\<not> shuttingDown (Some s)"
  shows "mainSteamTemp (calculateSystemState now lv (Some s) (Some dt))
           = Some (Num (orElse (mainSteamTemp
               (calculateBoilerResponse (leverParams (forcedLevers (Some s) lv)) s dt))
               STEAM_TEMP_BASE))"
    and "mainSteamPressure (calculateSystemState now lv (Some s) (Some dt))
           = Some (Num (orElse (mainSteamPressure
               (calculateBoilerResponse (leverParams (forcedLevers (Some s) lv)) s dt))
               STEAM_PRESSURE_BASE))"
    and "mainSteamFlow (calculateSystemState now lv (Some s) (Some dt))
           = Some (Num (orElse (mainSteamFlow
               (calculateBoilerResponse (leverParams (forcedLevers (Some s) lv)) s dt)) 0))"
  using assms
  by (simp_all add: calculateSystemState_def Let_def shuttingDown_def tripped_def
        forcedLevers_def leverParams_def split: option.splits jsnum.splits)

lemma normal_turbine:
  assumes "\<not> shuttingDown (Some s)"
  shows "turbineSpeed (calculateSystemState now lv (Some s) (Some dt))
           = Some (Num (orElse (turbineSpeed
               (calculateTurbineResponse (leverParams (forcedLevers (Some s) lv))
                  (spread s (calculateBoilerResponse (leverParams (forcedLevers (Some s) lv)) s dt))
                  dt)) 0))"
    and "load (calculateSystemState now lv (Some s) (Some dt))
           = Some (Num (orElse (load
               (calculateTurbineResponse (leverParams (forcedLevers (Some s) lv))
                  (spread s (calculateBoilerResponse (leverParams (forcedLevers (Some s) lv)) s dt))
                  dt)) 0))"
  using assms
  by (simp_all add: calculateSystemState_def Let_def shuttingDown_def tripped_def
        forcedLevers_def leverParams_def split: option.splits jsnum.splits)

lemma normal_fuel_indicators:
  assumes "\<not> shuttingDown (Some s)"
  shows "coalLoadingRate (calculateSystemState now lv (Some s) (Some dt))
           = Some (Num (coalFeed (leverParams (forcedLevers (Some s) lv)) * 10))"
    and "fuelConsumptionRate (calculateSystemState now lv (Some s) (Some dt))
           = Some (Num (coalFeed (leverParams (forcedLevers (Some s) lv)) * 0.1))"
  using assms
  by (simp_all add: calculateSystemState_def Let_def shuttingDown_def tripped_def
        forcedLevers_def leverParams_def calculateCoalLoadingRate_def
        calculateFuelConsumptionRate_def split: option.splits jsnum.splits)

lemma default_deltaTime:
  "calculateSystemState now lv cs dt = calculateSystemState now lv cs (Some (deltaTimeOf dt))"
  by (cases dt) (simp_all only: calculateSystemState_def deltaTimeOf_def option.case)

lemma normal_frequency:
  assumes "\<not> shuttingDown cs"
  shows "frequency (calculateSystemState now lv cs dt)
           = loadFrequency (load (calculateSystemState now lv cs dt))"
  using assms
  by (simp add: calculateSystemState_def Let_def shuttingDown_def loadFrequency_def
        calculateFrequencyFromLoad_def calculateFrequency_def split: option.splits jsnum.splits)

lemma normal_absent:
  "\<not> shuttingDown cs \<Longrightarrow> shutdownTime (calculateSystemState now lv cs dt) = None"
  by (simp add: calculateSystemState_def Let_def shuttingDown_def emptyState_def
        split: option.splits jsnum.splits)

lemma shutdown_absent:
  "shuttingDown cs \<Longrightarrow> frequency (calculateSystemState now lv cs dt) = None"
  by (simp add: calculateSystemState_def Let_def shuttingDown_def emptyState_def
        split: option.splits jsnum.splits)

lemma normal_pressure_nonzero:
  "\<not> shuttingDown (Some s) \<Longrightarrow>
   mainSteamPressure (calculateSystemState now lv (Some s) (Some dt)) \<noteq> Some (Num 0)"
  by (simp add: normal_boiler orElse_nonzero STEAM_PRESSURE_BASE_def)

text \<open>Once tripped, the result is that of the lever vector with fuel and throttle at zero.\<close>

lemma forced_twice:
  "(lv\<lparr>coal_feed := 0, steam_turbine := 0\<rparr>)\<lparr>coal_feed := 0, steam_turbine := 0\<rparr>
     = lv\<lparr>coal_feed := 0, steam_turbine := 0\<rparr>"
  by simp

lemma forced_idem:
  assumes "tripped cs"
  shows "calculateSystemState now lv cs dt
     = calculateSystemState now (lv\<lparr>coal_feed := 0, steam_turbine := 0\<rparr>) cs dt"
proof -
  have c: "(if orElse (Option.bind cs mainSteamTemp) STEAM_TEMP_BASE > 620
               \<or> (60::real) < 8 \<or> (60::real) > 95
               \<or> orElse (Option.bind cs turbineSpeed) 1800 > 3600
            then True else orFalse (Option.bind cs trip)) = True"
    using assms by (auto simp: tripped_def)
  show ?thesis
    unfolding calculateSystemState_def
    by (simp only: Let_def c if_True forced_twice)
qed

lemma forced_params:
  "tripped cs \<Longrightarrow> coalFeed (leverParams (forcedLevers cs lv)) = 0"
  "tripped cs \<Longrightarrow> steamTurbine (leverParams (forcedLevers cs lv)) = 0"
  "steamFlow (leverParams (forcedLevers cs lv)) = steam_flow lv"
  by (simp_all add: leverParams_def forcedLevers_def)

text \<open>The stages at their special inputs.\<close>

lemma boiler_absent:
  "turbineSpeed (calculateBoilerResponse p c d) = None"
  "load (calculateBoilerResponse p c d) = None"
  by (simp_all add: calculateBoilerResponse_def Let_def emptyState_def)

lemma boiler_zero_dt:
  "mainSteamTemp (calculateBoilerResponse p c 0)
     = Some (Num (orElse (mainSteamTemp c) STEAM_TEMP_BASE))"
  "mainSteamPressure (calculateBoilerResponse p c 0)
     = Some (Num (orElse (mainSteamPressure c) STEAM_PRESSURE_BASE))"
  "mainSteamFlow (calculateBoilerResponse p c 0) = Some (Num (orElse (mainSteamFlow c) 0))"
  by (simp_all add: calculateBoilerResponse_def Let_def smoothApproach_zero_dt)

lemma turbine_zero_dt:
  "turbineSpeed (calculateTurbineResponse p c 0) = Some (Num (orElse (turbineSpeed c) 1800))"
  "load (calculateTurbineResponse p c 0) = Some (Num (orElse (load c) 0))"
  by (simp_all add: calculateTurbineResponse_def Let_def smoothApproach_zero_dt)

lemma boiler_flow_no_fuel:
  "coalFeed p = 0 \<Longrightarrow>
   mainSteamFlow (calculateBoilerResponse p c d)
     = Some (Num (smoothApproach (orElse (mainSteamFlow c) 0) 0 SMOOTH_FACTORS_steamFlow d))"
  by (simp add: calculateBoilerResponse_def Let_def)

lemma turbine_valve_closed:
  assumes "steamTurbine p = 0"
  shows "turbineSpeed (calculateTurbineResponse p c d)
     = Some (Num (smoothApproach (orElse (turbineSpeed c) 1800) 0 SMOOTH_FACTORS_rpm d))"
    and "load (calculateTurbineResponse p c d)
     = Some (Num (smoothApproach (orElse (load c) 0) (min 0 (steamFlow p / 100 * 600))
                    SMOOTH_FACTORS_steamTurbine d))"
  using assms by (simp_all add: calculateTurbineResponse_def Let_def)

lemma valve_closed_fields:
  assumes "\<not> shuttingDown (Some s)"
    and "steamTurbine (leverParams (forcedLevers (Some s) lv)) = 0"
  shows "turbineSpeed (calculateSystemState now lv (Some s) (Some dt))
           = Some (Num (orElse (turbineSpeed s) 1800 * exp (- 0.03 * dt)))"
    and "load (calculateSystemState now lv (Some s) (Some dt))
           = Some (Num (smoothApproach (orElse (load s) 0) (min 0 (steam_flow lv / 100 * 600))
                          SMOOTH_FACTORS_steamTurbine dt))"
  using assms(2)
  by (simp_all add: normal_turbine [OF assms(1)] turbine_valve_closed forced_params(3)
        spread_keeps boiler_absent smoothApproach_to_zero orElse_zero_default
        SMOOTH_FACTORS_rpm_def)

lemma no_fuel_flow:
  assumes "\<not> shuttingDown (Some s)"
    and "coalFeed (leverParams (forcedLevers (Some s) lv)) = 0"
  shows "mainSteamFlow (calculateSystemState now lv (Some s) (Some dt))
           = Some (Num (orElse (mainSteamFlow s) 0 * exp (- 0.05 * dt)))"
  using assms(2)
  by (simp add: normal_boiler [OF assms(1)] boiler_flow_no_fuel smoothApproach_to_zero
        orElse_zero_default SMOOTH_FACTORS_steamFlow_def)

text \<open>Bounds on the smoothing step, which is a convex combination for \<open>rate * dt \<ge> 0\<close>.\<close>

lemma smoothApproach_convex:
  "smoothApproach c t r d = exp (- r * d) * c + (1 - exp (- r * d)) * t"
  by (simp add: smoothApproach_def algebra_simps)

lemma smoothApproach_ge:
  assumes "0 \<le> r * d" and "lo \<le> c" and "lo \<le> t"
  shows "lo \<le> smoothApproach c t r d"
proof -
  define e where "e = exp (- r * d)"
  have e: "0 < e" "e \<le> 1" using assms(1) by (simp_all add: e_def)
  have "e * lo \<le> e * c" using e assms(2) by (simp add: mult_left_mono)
  moreover have "(1 - e) * lo \<le> (1 - e) * t" using e assms(3) by (simp add: mult_left_mono)
  ultimately have "e * lo + (1 - e) * lo \<le> e * c + (1 - e) * t" by linarith
  moreover have "e * lo + (1 - e) * lo = lo" by (simp add: algebra_simps)
  ultimately show ?thesis by (simp add: smoothApproach_convex e_def)
qed

lemma smoothApproach_le:
  assumes "0 \<le> r * d" and "c \<le> hi" and "t \<le> hi"
  shows "smoothApproach c t r d \<le> hi"
proof -
  define e where "e = exp (- r * d)"
  have e: "0 < e" "e \<le> 1" using assms(1) by (simp_all add: e_def)
  have "e * c \<le> e * hi" using e assms(2) by (simp add: mult_left_mono)
  moreover have "(1 - e) * t \<le> (1 - e) * hi" using e assms(3) by (simp add: mult_left_mono)
  ultimately have "e * c + (1 - e) * t \<le> e * hi + (1 - e) * hi" by linarith
  moreover have "e * hi + (1 - e) * hi = hi" by (simp add: algebra_simps)
  ultimately show ?thesis by (simp add: smoothApproach_convex e_def)
qed

lemma smoothApproach_pos:
  assumes "0 \<le> r * d" and "0 < c" and "0 \<le> t"
  shows "0 < smoothApproach c t r d"
proof -
  define e where "e = exp (- r * d)"
  have e: "0 < e" "e \<le> 1" using assms(1) by (simp_all add: e_def)
  have "0 < e * c" using e assms(2) by simp
  moreover have "0 \<le> (1 - e) * t" using e assms(3) by simp
  ultimately show ?thesis by (simp add: smoothApproach_convex e_def add_pos_nonneg)
qed

text \<open>The targets of the boiler and turbine stages are not negative.\<close>

lemma target_pressure_nonneg:
  fixes nt f :: real
  assumes "0 \<le> f"
  shows "0 \<le> (nt / 100) ^ 4 * 0.1 * (1 + f / 100 * 0.5)"
  using assms by simp

lemma target_flow_nonneg:
  fixes nt f a :: real
  assumes "0 \<le> f" and "0 \<le> nt"
  shows "0 \<le> f / 100 * 500 * (min 1 (nt / 540) * (max 0.4 a * (0.7 + f / 100 * 0.3)))"
proof -
  have "0 \<le> min 1 (nt / 540)" using assms(2) by simp
  moreover have "0 \<le> max 0.4 a" by simp
  moreover have "0 \<le> 0.7 + f / 100 * 0.3" using assms(1) by simp
  ultimately show ?thesis using assms(1) by (intro mult_nonneg_nonneg) simp_all
qed

lemma mech_power_nonneg:
  fixes fl te pr v :: real
  assumes "0 \<le> fl" and "40 \<le> te" and "0 \<le> pr" and "0 \<le> v"
  shows "0 \<le> fl * (2.0 * te + 2500 - (2.0 * 40 + 2500))
              * (0.88 * (0.8 + v / 100 * 0.2) * min 1 (pr / 5.0 / 3)) / 3600 * (v / 100)"
proof -
  have "0 \<le> 2.0 * te + 2500 - (2.0 * 40 + 2500)" using assms(2) by simp
  moreover have "0 \<le> 0.88 * (0.8 + v / 100 * 0.2)" using assms(4) by simp
  moreover have "0 \<le> min 1 (pr / 5.0 / 3)" using assms(3) by simp
  ultimately show ?thesis using assms(1,4)
    by (intro mult_nonneg_nonneg divide_nonneg_nonneg) simp_all
qed

lemma target_flow_le:
  fixes nt f x :: real
  assumes "0 \<le> f" and "f \<le> 100"
  shows "f / 100 * 500 * (min 1 (nt / 540) * (max 0.4 (1 - \<bar>x\<bar> / 15.5) * (0.7 + f / 100 * 0.3)))
           \<le> 500"
proof -
  define g where "g = f / 100 * 500"
  define m where "m = min 1 (nt / 540)"
  define q where "q = max 0.4 (1 - \<bar>x\<bar> / 15.5)"
  define w where "w = 0.7 + f / 100 * 0.3"
  have g: "0 \<le> g" "g \<le> 500" using assms by (simp_all add: g_def)
  have m: "m \<le> 1" by (simp add: m_def)
  have q: "0 \<le> q" "q \<le> 1" by (simp_all add: q_def)
  have w: "0 \<le> w" "w \<le> 1" using assms by (simp_all add: w_def)
  have qw: "0 \<le> q * w" "q * w \<le> 1"
    using q w by (simp_all add: mult_le_one)
  have "m * (q * w) \<le> 1 * (q * w)" using m qw(1) by (intro mult_right_mono) simp_all
  then have mqw: "m * (q * w) \<le> 1" using qw(2) by linarith
  have "g * (m * (q * w)) \<le> g * 1" using mqw g(1) by (intro mult_left_mono) simp_all
  then have "g * (m * (q * w)) \<le> 500" using g(2) by linarith
  then show ?thesis unfolding g_def m_def q_def w_def .
qed

lemma mech_power_le:
  fixes fl te pr v :: real
  assumes "0 \<le> fl" and "fl \<le> 500" and "40 \<le> te" and "te \<le> 2900"
    and "0 \<le> pr" and "0 \<le> v" and "v \<le> 100"
  shows "fl * (2.0 * te + 2500 - (2.0 * 40 + 2500))
              * (0.88 * (0.8 + v / 100 * 0.2) * min 1 (pr / 5.0 / 3)) / 3600 * (v / 100)
           \<le> 720"
proof -
  define aw where "aw = 2.0 * te + 2500 - (2.0 * 40 + 2500)"
  define ef where "ef = 0.88 * (0.8 + v / 100 * 0.2) * min 1 (pr / 5.0 / 3)"
  define u where "u = v / 100"
  have aw: "0 \<le> aw" "aw \<le> 5720" using assms(3,4) by (simp_all add: aw_def)
  have e1: "0 \<le> 0.88 * (0.8 + v / 100 * 0.2)" "0.88 * (0.8 + v / 100 * 0.2) \<le> 0.88"
    using assms(6,7) by simp_all
  have e2: "0 \<le> min 1 (pr / 5.0 / 3)" "min 1 (pr / 5.0 / 3) \<le> 1"
    using assms(5) by simp_all
  have ef: "0 \<le> ef" "ef \<le> 0.88"
  proof -
    show "0 \<le> ef" unfolding ef_def using e1(1) e2(1) by (rule mult_nonneg_nonneg)
    have "0.88 * (0.8 + v / 100 * 0.2) * min 1 (pr / 5.0 / 3) \<le> 0.88 * 1"
      using e1 e2 by (intro mult_mono) simp_all
    then show "ef \<le> 0.88" by (simp add: ef_def)
  qed
  have u: "0 \<le> u" "u \<le> 1" using assms(6,7) by (simp_all add: u_def)
  have a: "fl * aw \<le> 500 * 5720" using assms(1,2) aw by (intro mult_mono) simp_all
  have a0: "0 \<le> fl * aw" using assms(1) aw(1) by simp
  have b: "(fl * aw) * ef \<le> 2860000 * 0.88"
    by (rule mult_mono) (use a a0 ef in simp_all)
  have b0: "0 \<le> fl * aw * ef" using a0 ef(1) by simp
  have c: "fl * aw * ef / 3600 \<le> 700" using b by simp
  have c0: "0 \<le> fl * aw * ef / 3600" using b0 by simp
  have "(fl * aw * ef / 3600) * u \<le> 700 * 1"
    by (rule mult_mono) (use c c0 u in simp_all)
  then have "fl * aw * ef / 3600 * u \<le> 720" by simp
  then show ?thesis unfolding aw_def ef_def u_def .
qed

text \<open>The shape of what the boiler and turbine stages return.\<close>

lemma boiler_shape:
  "\<exists>nt. mainSteamTemp (calculateBoilerResponse p c d) = Some (Num nt)
     \<and> mainSteamPressure (calculateBoilerResponse p c d)
         = Some (Num (smoothApproach (orElse (mainSteamPressure c) STEAM_PRESSURE_BASE)
             ((nt / 100) ^ 4 * 0.1 * (1 + coalFeed p / 100 * 0.5)) SMOOTH_FACTORS_pressure d))
     \<and> mainSteamFlow (calculateBoilerResponse p c d)
         = Some (Num (smoothApproach (orElse (mainSteamFlow c) 0)
             (coalFeed p / 100 * 500 * (min 1 (nt / 540)
                * (max 0.4 (1 - \<bar>airSupply p / 100 / max (coalFeed p / 100) 0.01 - 15.5\<bar> / 15.5)
                   * (0.7 + coalFeed p / 100 * 0.3))))
             SMOOTH_FACTORS_steamFlow d))"
  by (simp add: calculateBoilerResponse_def Let_def STEAM_TEMP_BASE_def)

lemma turbine_shape:
  "turbineSpeed (calculateTurbineResponse p c d)
     = Some (Num (smoothApproach (orElse (turbineSpeed c) 1800)
         (3000 * ((orElse (mainSteamFlow c) 0
             * (2.0 * orElse (mainSteamTemp c) STEAM_TEMP_BASE + 2500 - (2.0 * 40 + 2500))
             * (0.88 * (0.8 + steamTurbine p / 100 * 0.2)
                * min 1 (orElse (mainSteamPressure c) STEAM_PRESSURE_BASE / 5.0 / 3)) / 3600
             * (steamTurbine p / 100)) / 600))
         SMOOTH_FACTORS_rpm d))"
  "load (calculateTurbineResponse p c d)
     = Some (Num (smoothApproach (orElse (load c) 0)
         (min ((orElse (mainSteamFlow c) 0
             * (2.0 * orElse (mainSteamTemp c) STEAM_TEMP_BASE + 2500 - (2.0 * 40 + 2500))
             * (0.88 * (0.8 + steamTurbine p / 100 * 0.2)
                * min 1 (orElse (mainSteamPressure c) STEAM_PRESSURE_BASE / 5.0 / 3)) / 3600
             * (steamTurbine p / 100)) * 0.98)
            (steamFlow p / 100 * 600))
         SMOOTH_FACTORS_steamTurbine d))"
proof -
  have sel: "turbineSpeed (emptyState\<lparr>turbineSpeed := a, load := b,
               targetTurbineSpeed := x, targetLoad := y\<rparr>) = a"
    "load (emptyState\<lparr>turbineSpeed := a, load := b,
               targetTurbineSpeed := x, targetLoad := y\<rparr>) = b" for a b x y
    by simp_all
  show "turbineSpeed (calculateTurbineResponse p c d)
     = Some (Num (smoothApproach (orElse (turbineSpeed c) 1800)
         (3000 * ((orElse (mainSteamFlow c) 0
             * (2.0 * orElse (mainSteamTemp c) STEAM_TEMP_BASE + 2500 - (2.0 * 40 + 2500))
             * (0.88 * (0.8 + steamTurbine p / 100 * 0.2)
                * min 1 (orElse (mainSteamPressure c) STEAM_PRESSURE_BASE / 5.0 / 3)) / 3600
             * (steamTurbine p / 100)) / 600))
         SMOOTH_FACTORS_rpm d))"
    unfolding calculateTurbineResponse_def Let_def TURBINE_EFFICIENCY_BASE_def
      GENERATOR_EFFICIENCY_def
    by (rule sel(1))
  show "load (calculateTurbineResponse p c d)
     = Some (Num (smoothApproach (orElse (load c) 0)
         (min ((orElse (mainSteamFlow c) 0
             * (2.0 * orElse (mainSteamTemp c) STEAM_TEMP_BASE + 2500 - (2.0 * 40 + 2500))
             * (0.88 * (0.8 + steamTurbine p / 100 * 0.2)
                * min 1 (orElse (mainSteamPressure c) STEAM_PRESSURE_BASE / 5.0 / 3)) / 3600
             * (steamTurbine p / 100)) * 0.98)
            (steamFlow p / 100 * 600))
         SMOOTH_FACTORS_steamTurbine d))"
    unfolding calculateTurbineResponse_def Let_def TURBINE_EFFICIENCY_BASE_def
      GENERATOR_EFFICIENCY_def
    by (rule sel(2))
qed

lemma spread_boiler:
  "mainSteamTemp b = Some x \<Longrightarrow> mainSteamTemp (spread a b) = Some x"
  "mainSteamPressure b = Some y \<Longrightarrow> mainSteamPressure (spread a b) = Some y"
  "mainSteamFlow b = Some z \<Longrightarrow> mainSteamFlow (spread a b) = Some z"
  by (simp_all add: spread_def pick_def)

lemma params_in_range:
  assumes "leversInRange lv"
  shows "0 \<le> coalFeed (leverParams (forcedLevers cs lv))"
    and "0 \<le> steamTurbine (leverParams (forcedLevers cs lv))"
    and "0 \<le> steamFlow (leverParams (forcedLevers cs lv))"
    and "steamFlow (leverParams (forcedLevers cs lv)) \<le> 100"
    and "coalFeed (leverParams (forcedLevers cs lv)) \<le> 100"
    and "steamTurbine (leverParams (forcedLevers cs lv)) \<le> 100"
  using assms by (simp_all add: leversInRange_def leverParams_def forcedLevers_def)

lemma numGe_orElse: "numGe 0 v \<Longrightarrow> 0 < d \<Longrightarrow> 0 < orElse v d"
  by (auto simp: numGe_def orElse_def split: option.splits jsnum.splits)

lemma numGe_orElse0: "numGe 0 v \<Longrightarrow> 0 \<le> orElse v 0"
  by (auto simp: numGe_def orElse_def split: option.splits jsnum.splits)

lemma numLe_orElse0: "numLe hi v \<Longrightarrow> 0 \<le> hi \<Longrightarrow> orElse v 0 \<le> hi"
  by (auto simp: numLe_def orElse_def split: option.splits jsnum.splits)

lemma numLe_orElse: "numLe hi v \<Longrightarrow> d \<le> hi \<Longrightarrow> orElse v d \<le> hi"
  by (auto simp: numLe_def orElse_def split: option.splits jsnum.splits)

lemma boiler_targets:
  "\<exists>nt tp tf.
     mainSteamTemp (calculateBoilerResponse p c d) = Some (Num nt)
     \<and> mainSteamPressure (calculateBoilerResponse p c d)
         = Some (Num (smoothApproach (orElse (mainSteamPressure c) STEAM_PRESSURE_BASE) tp
                        SMOOTH_FACTORS_pressure d))
     \<and> mainSteamFlow (calculateBoilerResponse p c d)
         = Some (Num (smoothApproach (orElse (mainSteamFlow c) 0) tf SMOOTH_FACTORS_steamFlow d))
     \<and> (0 \<le> coalFeed p \<longrightarrow> 0 \<le> tp)
     \<and> (0 \<le> coalFeed p \<and> 0 \<le> nt \<longrightarrow> 0 \<le> tf)
     \<and> (0 \<le> coalFeed p \<and> coalFeed p \<le> 100 \<longrightarrow> tf \<le> 500)"
proof -
  obtain nt where h:
    "mainSteamTemp (calculateBoilerResponse p c d) = Some (Num nt)"
    "mainSteamPressure (calculateBoilerResponse p c d)
         = Some (Num (smoothApproach (orElse (mainSteamPressure c) STEAM_PRESSURE_BASE)
             ((nt / 100) ^ 4 * 0.1 * (1 + coalFeed p / 100 * 0.5)) SMOOTH_FACTORS_pressure d))"
    "mainSteamFlow (calculateBoilerResponse p c d)
         = Some (Num (smoothApproach (orElse (mainSteamFlow c) 0)
             (coalFeed p / 100 * 500 * (min 1 (nt / 540)
                * (max 0.4 (1 - \<bar>airSupply p / 100 / max (coalFeed p / 100) 0.01 - 15.5\<bar> / 15.5)
                   * (0.7 + coalFeed p / 100 * 0.3))))
             SMOOTH_FACTORS_steamFlow d))"
    using boiler_shape [of p c d] by blast
  define tp where "tp = (nt / 100) ^ 4 * 0.1 * (1 + coalFeed p / 100 * 0.5)"
  define tf where "tf = coalFeed p / 100 * 500 * (min 1 (nt / 540)
                * (max 0.4 (1 - \<bar>airSupply p / 100 / max (coalFeed p / 100) 0.01 - 15.5\<bar> / 15.5)
                   * (0.7 + coalFeed p / 100 * 0.3)))"
  have 1: "0 \<le> tp" if "0 \<le> coalFeed p"
    unfolding tp_def using that by (rule target_pressure_nonneg)
  have 2: "0 \<le> tf" if "0 \<le> coalFeed p" "0 \<le> nt"
    unfolding tf_def using that by (rule target_flow_nonneg)
  have 3: "tf \<le> 500" if "0 \<le> coalFeed p" "coalFeed p \<le> 100"
    unfolding tf_def using that by (rule target_flow_le)
  show ?thesis
    using h 1 2 3 unfolding tp_def [symmetric] tf_def [symmetric] by blast
qed

lemma turbine_targets:
  "\<exists>tr tl.
     turbineSpeed (calculateTurbineResponse p c d)
       = Some (Num (smoothApproach (orElse (turbineSpeed c) 1800) tr SMOOTH_FACTORS_rpm d))
     \<and> load (calculateTurbineResponse p c d)
         = Some (Num (smoothApproach (orElse (load c) 0) tl SMOOTH_FACTORS_steamTurbine d))
     \<and> tl \<le> steamFlow p / 100 * 600
     \<and> (0 \<le> orElse (mainSteamFlow c) 0 \<and> 40 \<le> orElse (mainSteamTemp c) STEAM_TEMP_BASE
          \<and> 0 \<le> orElse (mainSteamPressure c) STEAM_PRESSURE_BASE
          \<and> 0 \<le> steamTurbine p \<and> 0 \<le> steamFlow p
        \<longrightarrow> 0 \<le> tr \<and> 0 \<le> tl)
     \<and> (0 \<le> orElse (mainSteamFlow c) 0 \<and> orElse (mainSteamFlow c) 0 \<le> 500
          \<and> 40 \<le> orElse (mainSteamTemp c) STEAM_TEMP_BASE
          \<and> orElse (mainSteamTemp c) STEAM_TEMP_BASE \<le> 2900
          \<and> 0 \<le> orElse (mainSteamPressure c) STEAM_PRESSURE_BASE
          \<and> 0 \<le> steamTurbine p \<and> steamTurbine p \<le> 100
        \<longrightarrow> tr \<le> 3600)"
proof -
  define mp where "mp = orElse (mainSteamFlow c) 0
             * (2.0 * orElse (mainSteamTemp c) STEAM_TEMP_BASE + 2500 - (2.0 * 40 + 2500))
             * (0.88 * (0.8 + steamTurbine p / 100 * 0.2)
                * min 1 (orElse (mainSteamPressure c) STEAM_PRESSURE_BASE / 5.0 / 3)) / 3600
             * (steamTurbine p / 100)"
  have a: "turbineSpeed (calculateTurbineResponse p c d)
       = Some (Num (smoothApproach (orElse (turbineSpeed c) 1800) (3000 * (mp / 600))
                      SMOOTH_FACTORS_rpm d))"
    unfolding mp_def by (rule turbine_shape(1))
  have b: "load (calculateTurbineResponse p c d)
       = Some (Num (smoothApproach (orElse (load c) 0) (min (mp * 0.98) (steamFlow p / 100 * 600))
                      SMOOTH_FACTORS_steamTurbine d))"
    unfolding mp_def by (rule turbine_shape(2))
  have c: "min (mp * 0.98) (steamFlow p / 100 * 600) \<le> steamFlow p / 100 * 600"
    by (rule min.cobounded2)
  have d: "0 \<le> 3000 * (mp / 600) \<and> 0 \<le> min (mp * 0.98) (steamFlow p / 100 * 600)"
    if "0 \<le> orElse (mainSteamFlow c) 0" "40 \<le> orElse (mainSteamTemp c) STEAM_TEMP_BASE"
       "0 \<le> orElse (mainSteamPressure c) STEAM_PRESSURE_BASE"
       "0 \<le> steamTurbine p" "0 \<le> steamFlow p"
  proof -
    have "0 \<le> mp" unfolding mp_def using that(1-4) by (rule mech_power_nonneg)
    then show ?thesis using that(5) by simp
  qed
  have e: "3000 * (mp / 600) \<le> 3600"
    if "0 \<le> orElse (mainSteamFlow c) 0" "orElse (mainSteamFlow c) 0 \<le> 500"
       "40 \<le> orElse (mainSteamTemp c) STEAM_TEMP_BASE"
       "orElse (mainSteamTemp c) STEAM_TEMP_BASE \<le> 2900"
       "0 \<le> orElse (mainSteamPressure c) STEAM_PRESSURE_BASE"
       "0 \<le> steamTurbine p" "steamTurbine p \<le> 100"
  proof -
    have "mp \<le> 720" unfolding mp_def using that by (rule mech_power_le)
    then show ?thesis by simp
  qed
  show ?thesis using a b c d e by blast
qed

lemma smoothApproach_gt:
  assumes "0 < r * d" and "c < t"
  shows "c < smoothApproach c t r d"
proof -
  have "0 < 1 - exp (- r * d)" using assms(1) by simp
  then have "0 < (t - c) * (1 - exp (- r * d))" using assms(2) by simp
  then show ?thesis by (simp add: smoothApproach_def)
qed

lemma boiler_temp_field:
  "mainSteamTemp (calculateBoilerResponse p c d) =
     Some (Num (smoothApproach (orElse (mainSteamTemp c) STEAM_TEMP_BASE)
       (orElse (mainSteamTemp c) STEAM_TEMP_BASE
          + ((coalFeed p / 100 * COAL_CALORIFIC_VALUE
               * (max 0.4 (1 - \<bar>airSupply p / 100 / max (coalFeed p / 100) 0.01 - 15.5\<bar> / 15.5)
                    * (0.7 + coalFeed p / 100 * 0.3))
              - orElse (mainSteamTemp c) STEAM_TEMP_BASE * 0.02 * d) / (4.186 * 1000)) * d / 3600)
       SMOOTH_FACTORS_temperature d))"
proof -
  have sel: "mainSteamTemp (emptyState\<lparr>mainSteamFlow := a, mainSteamTemp := b,
               mainSteamPressure := x, targetMainSteamFlow := y, targetMainSteamTemp := z,
               targetMainSteamPressure := w\<rparr>) = b" for a b x y z w
    by simp
  show ?thesis
    unfolding calculateBoilerResponse_def Let_def by (rule sel)
qed

subsection \<open>Earnings\<close>

text \<open>
  Claim C9, as the code has it. The first \<open>calculateEarnings\<close> is
  \<open>load * rate * (durationSeconds / 3600)\<close> with the rate 1000000, and is 0 for a
  duration of 0. The second one has the rate 10 and clamps at zero: it is
  \<open>max(0, load * 10 * (durationSeconds / 3600))\<close>, which is the product whenever
  \<open>load * durationSeconds\<close> is not negative, and is 0 for a duration of 0. Both are
  functions of their two arguments alone.
\<close>

theorem calculateEarnings_contract:
  "calculateEarnings powerOutput' durationSeconds
       = powerOutput' * 1000000 * (durationSeconds / 3600)
   \<and> calculateEarnings powerOutput' 0 = 0
   \<and> calculateEarnings_v2 powerOutput' durationSeconds
       = max 0 (powerOutput' * 10 * (durationSeconds / 3600))
   \<and> (0 \<le> powerOutput' * durationSeconds
        \<longrightarrow> calculateEarnings_v2 powerOutput' durationSeconds
              = powerOutput' * 10 * (durationSeconds / 3600))
   \<and> calculateEarnings_v2 powerOutput' 0 = 0"
  by (simp add: calculateEarnings_def calculateEarnings_v2_def Let_def max_def mult.commute)

theorem calculateEarnings_contract_witness:
  "calculateEarnings_v2 300 7200 = 300 * 10 * (7200 / 3600)"
proof -
  have "(0::real) \<le> 300 * 7200" by simp
  with calculateEarnings_contract [of 300 7200] show ?thesis by blast
qed

text \<open>
  The second \<open>calculateEarnings\<close> is not the product for a fixed rate: a load of 1 for
  an hour earns 10, so the rate would be 10, but a load of \<open>-1\<close> for an hour earns 0.
\<close>

theorem calculateEarnings_v2_counterexample:
  "calculateEarnings_v2 1 3600 = 1 * 10 * (3600 / 3600)
   \<and> calculateEarnings_v2 (- 1) 3600 \<noteq> (- 1) * 10 * (3600 / 3600)"
  by (simp add: calculateEarnings_v2_def Let_def)

subsection \<open>Trip latching\<close>

lemma trip_recompute:
  "trip (updateLever_recompute currentTime nowOil nowRun leverValues s)
     = trip (calculateSystemState nowOil leverValues (Some s)
               (Some ((currentTime - orElse (lastUpdateTime s) currentTime) / 1000)))"
  by (simp add: updateLever_recompute_def Let_def spread_def pick_def trip_out)

lemma storeStep_trip:
  assumes "storeStep s s'" and "trip s = Some True"
  shows "trip s' = Some True"
  using assms
proof (cases rule: storeStep.cases)
  case (step_recompute currentTime nowOil nowRun leverValues)
  then show ?thesis
    using assms(2) by (simp add: trip_recompute trip_out tripped_def orFalse_def)
next
  case (step_start now)
  then show ?thesis using assms(2) by (simp add: startSystem_def)
next
  case step_stop
  then show ?thesis using assms(2) by (simp add: stopSystem_def)
next
  case step_shutdown
  then show ?thesis by (simp add: shutdownSystem_def)
next
  case (step_earnings currentTime)
  then show ?thesis using assms(2) by (simp add: updateEarnings_def Let_def)
qed

lemma reachable_trip:
  assumes "storeStep\<^sup>*\<^sup>* s s'" and "trip s = Some True"
  shows "trip s' = Some True"
  using assms
proof (induction rule: rtranclp_induct)
  case base
  then show ?case by simp
next
  case (step y z)
  then show ?case using storeStep_trip by blast
qed

text \<open>
  Claim C1. The boiler temperature of a tick is the \<open>mainSteamTemp\<close> that the tick reads
  from its previous state. If it is above 620, the \<open>trip\<close> of that tick's result is true;
  if \<open>trip\<close> is true in the previous state, it is true in the result; and from a state
  with \<open>trip\<close> true, every state that the store reaches by recomputations, start, stop,
  shutdown and earnings updates (any number of them, no reset among them) has \<open>trip\<close>
  true. \<open>resetSystem\<close> installs the initial state, in which \<open>trip\<close> is false.
\<close>

theorem trip_latching:
  "(mainSteamTemp s = Some (Num T) \<and> T > 620
      \<longrightarrow> trip (calculateSystemState now lv (Some s) dt) = Some True)
   \<and> (trip s = Some True \<longrightarrow> trip (calculateSystemState now lv (Some s) dt) = Some True)
   \<and> (trip s = Some True \<and> storeStep\<^sup>*\<^sup>* s s' \<longrightarrow> trip s' = Some True)
   \<and> trip (resetSystem loadTime) = Some False
   \<and> resetSystem loadTime = initialSystemState loadTime"
proof -
  have a: "trip (calculateSystemState now lv (Some s) dt) = Some True"
    if "mainSteamTemp s = Some (Num T)" "T > 620"
    using that by (simp add: trip_out tripped_def orElse_def)
  have b: "trip (calculateSystemState now lv (Some s) dt) = Some True"
    if "trip s = Some True"
    using that by (simp add: trip_out tripped_def orFalse_def)
  have c: "trip s' = Some True" if "trip s = Some True" "storeStep\<^sup>*\<^sup>* s s'"
    using that reachable_trip by blast
  have d: "resetSystem loadTime = initialSystemState loadTime"
    by (simp add: resetSystem_def initialSystemState_def)
  have e: "trip (resetSystem loadTime) = Some False"
    by (simp add: resetSystem_def)
  show ?thesis using a b c d e by blast
qed

theorem trip_latching_witness:
  "trip (calculateSystemState 0 (allLevers 50)
           (Some ((resetSystem 0)\<lparr>mainSteamTemp := Some (Num 621)\<rparr>)) (Some 1)) = Some True
   \<and> trip (calculateSystemState 0 (allLevers 50) (Some (shutdownSystem (resetSystem 0))) (Some 1))
       = Some True
   \<and> trip (stopSystem (shutdownSystem (resetSystem 0))) = Some True"
proof -
  have t: "mainSteamTemp ((resetSystem 0)\<lparr>mainSteamTemp := Some (Num 621)\<rparr>) = Some (Num 621)
           \<and> (621::real) > 620"
    by simp
  have u: "trip (shutdownSystem (resetSystem 0)) = Some True"
    by (simp add: shutdownSystem_def)
  have r: "storeStep\<^sup>*\<^sup>* (shutdownSystem (resetSystem 0))
             (stopSystem (shutdownSystem (resetSystem 0)))"
    by (rule r_into_rtranclp) (rule step_stop)
  show ?thesis
    using t u r
      trip_latching [of "(resetSystem 0)\<lparr>mainSteamTemp := Some (Num 621)\<rparr>" 621 0
        "allLevers 50" "Some 1" "stopSystem (shutdownSystem (resetSystem 0))" 0]
      trip_latching [of "shutdownSystem (resetSystem 0)" 0 0
        "allLevers 50" "Some 1" "stopSystem (shutdownSystem (resetSystem 0))" 0]
    by blast
qed

subsection \<open>What can trip the plant\<close>

text \<open>
  Claim C10. The trip check of \<open>calculateSystemState\<close> tests the constant water level
  60, so its two water-level conditions never hold: the \<open>trip\<close> of the result is true
  exactly when the shutdown block is entered, or the previous \<open>trip\<close> is true, or the
  previous \<open>mainSteamTemp\<close> is above 620, or the previous \<open>turbineSpeed\<close> is above 3600.
  It does not depend on the lever vector (the \<open>water_level\<close> lever included), the clock
  or \<open>dt\<close>. So from a state that is neither tripped nor shutting down, a result with
  \<open>trip\<close> true needs a previous \<open>mainSteamTemp\<close> above 620 or a previous \<open>turbineSpeed\<close>
  above 3600.
\<close>

theorem water_level_trip_unreachable:
  "trip (calculateSystemState now lv cs dt)
     = Some (shuttingDown cs \<or> orFalse (Option.bind cs trip)
             \<or> orElse (Option.bind cs mainSteamTemp) STEAM_TEMP_BASE > 620
             \<or> orElse (Option.bind cs turbineSpeed) 1800 > 3600)
   \<and> trip (calculateSystemState now lv cs dt) = trip (calculateSystemState now' lv' cs dt')
   \<and> (\<not> orFalse (trip s) \<and> \<not> shuttingDown (Some s)
        \<and> trip (calculateSystemState now lv (Some s) dt) = Some True
      \<longrightarrow> (\<exists>T. mainSteamTemp s = Some (Num T) \<and> T > 620)
          \<or> (\<exists>R. turbineSpeed s = Some (Num R) \<and> R > 3600))"
proof -
  have a: "orElse v d > c \<Longrightarrow> d \<le> c \<Longrightarrow> \<exists>x. v = Some (Num x) \<and> x > c" for v d c
    by (auto simp: orElse_def split: option.splits jsnum.splits if_splits)
  have b: "(\<exists>T. mainSteamTemp s = Some (Num T) \<and> T > 620)
          \<or> (\<exists>R. turbineSpeed s = Some (Num R) \<and> R > 3600)"
    if "\<not> orFalse (trip s)" "\<not> shuttingDown (Some s)"
       "trip (calculateSystemState now lv (Some s) dt) = Some True"
  proof -
    from that have "orElse (mainSteamTemp s) 540 > 620 \<or> orElse (turbineSpeed s) 1800 > 3600"
      by (simp add: trip_out tripped_def STEAM_TEMP_BASE_def)
    then show ?thesis
      using a [where v = "mainSteamTemp s" and d = 540 and c = 620]
        a [where v = "turbineSpeed s" and d = 1800 and c = 3600]
      by auto
  qed
  have c1: "trip (calculateSystemState now lv cs dt)
     = Some (shuttingDown cs \<or> orFalse (Option.bind cs trip)
             \<or> orElse (Option.bind cs mainSteamTemp) STEAM_TEMP_BASE > 620
             \<or> orElse (Option.bind cs turbineSpeed) 1800 > 3600)"
    by (simp add: trip_out tripped_def)
  have c2: "trip (calculateSystemState now lv cs dt)
              = trip (calculateSystemState now' lv' cs dt')"
    by (simp add: trip_out)
  show ?thesis using c1 c2 b by blast
qed

theorem water_level_trip_unreachable_witness:
  "(\<exists>T. mainSteamTemp ((resetSystem 0)\<lparr>turbineSpeed := Some (Num 3700)\<rparr>) = Some (Num T)
        \<and> T > 620)
   \<or> (\<exists>R. turbineSpeed ((resetSystem 0)\<lparr>turbineSpeed := Some (Num 3700)\<rparr>) = Some (Num R)
        \<and> R > 3600)"
proof -
  let ?s = "(resetSystem 0)\<lparr>turbineSpeed := Some (Num 3700)\<rparr>"
  have h1: "\<not> orFalse (trip ?s)" by (simp add: resetSystem_def orFalse_def)
  have h2: "\<not> shuttingDown (Some ?s)" by (simp add: shuttingDown_def resetSystem_def)
  have h3: "trip (calculateSystemState 0 (allLevers 50) (Some ?s) (Some 1)) = Some True"
    by (simp add: trip_out tripped_def orElse_def)
  show ?thesis
    using h1 h2 h3
      water_level_trip_unreachable [of 0 "allLevers 50" "Some ?s" "Some 1" 0 "allLevers 50"
        "Some 1" ?s]
    by blast
qed

subsection \<open>Levers that a tripped plant ignores\<close>

text \<open>
  Claim C2. For a previous state with \<open>trip\<close> true and \<open>shutdownTime\<close> 0, two lever vectors
  that differ only in \<open>coal_feed\<close> and \<open>steam_turbine\<close> give the same result (every
  property of it, at the same clock reading), and that result is the one for
  \<open>coal_feed = 0\<close> and \<open>steam_turbine = 0\<close>. The two inputs are zero where the stages read
  them: the primary values of the result are those that the boiler stage and the
  turbine stage return for the parameters built from the lever vector with
  \<open>coal_feed\<close> and \<open>steam_turbine\<close> at 0; the coal loading rate and the fuel consumption
  rate of the result are 0; and, whatever the two levers say, the steam flow is the
  previous one times \<open>e^(-0.05 * dt)\<close> and the turbine speed the previous one (1800 for
  none) times \<open>e^(-0.03 * dt)\<close>, the smoothing towards the targets of a boiler without
  fuel and a turbine with a closed throttle.
\<close>

theorem tripped_noninterference:
  assumes "trip s = Some True" and "shutdownTime s = Some (Num 0)"
    and "agreeOffFuelThrottle a b"
  shows "calculateSystemState now a (Some s) dt = calculateSystemState now b (Some s) dt
    \<and> calculateSystemState now a (Some s) dt
        = calculateSystemState now (a\<lparr>coal_feed := 0, steam_turbine := 0\<rparr>) (Some s) dt
    \<and> mainSteamTemp (calculateSystemState now a (Some s) dt)
        = Some (Num (orElse (mainSteamTemp
            (calculateBoilerResponse (leverParams (a\<lparr>coal_feed := 0, steam_turbine := 0\<rparr>))
               s (deltaTimeOf dt))) STEAM_TEMP_BASE))
    \<and> mainSteamPressure (calculateSystemState now a (Some s) dt)
        = Some (Num (orElse (mainSteamPressure
            (calculateBoilerResponse (leverParams (a\<lparr>coal_feed := 0, steam_turbine := 0\<rparr>))
               s (deltaTimeOf dt))) STEAM_PRESSURE_BASE))
    \<and> mainSteamFlow (calculateSystemState now a (Some s) dt)
        = Some (Num (orElse (mainSteamFlow
            (calculateBoilerResponse (leverParams (a\<lparr>coal_feed := 0, steam_turbine := 0\<rparr>))
               s (deltaTimeOf dt))) 0))
    \<and> turbineSpeed (calculateSystemState now a (Some s) dt)
        = Some (Num (orElse (turbineSpeed
            (calculateTurbineResponse (leverParams (a\<lparr>coal_feed := 0, steam_turbine := 0\<rparr>))
               (spread s (calculateBoilerResponse
                  (leverParams (a\<lparr>coal_feed := 0, steam_turbine := 0\<rparr>)) s (deltaTimeOf dt)))
               (deltaTimeOf dt))) 0))
    \<and> load (calculateSystemState now a (Some s) dt)
        = Some (Num (orElse (load
            (calculateTurbineResponse (leverParams (a\<lparr>coal_feed := 0, steam_turbine := 0\<rparr>))
               (spread s (calculateBoilerResponse
                  (leverParams (a\<lparr>coal_feed := 0, steam_turbine := 0\<rparr>)) s (deltaTimeOf dt)))
               (deltaTimeOf dt))) 0))
    \<and> coalLoadingRate (calculateSystemState now a (Some s) dt) = Some (Num 0)
    \<and> fuelConsumptionRate (calculateSystemState now a (Some s) dt) = Some (Num 0)
    \<and> mainSteamFlow (calculateSystemState now a (Some s) dt)
        = Some (Num (orElse (mainSteamFlow s) 0 * exp (- 0.05 * deltaTimeOf dt)))
    \<and> turbineSpeed (calculateSystemState now a (Some s) dt)
        = Some (Num (orElse (turbineSpeed s) 1800 * exp (- 0.03 * deltaTimeOf dt)))"
proof -
  have n: "\<not> shuttingDown (Some s)" using assms(2) by (simp add: shuttingDown_def)
  have t: "tripped (Some s)" using assms(1) by (simp add: tripped_def orFalse_def)
  have e: "a\<lparr>coal_feed := 0, steam_turbine := 0\<rparr> = b\<lparr>coal_feed := 0, steam_turbine := 0\<rparr>"
    using assms(3) by (simp add: agreeOffFuelThrottle_def levers.equality)
  have f: "forcedLevers (Some s) a = a\<lparr>coal_feed := 0, steam_turbine := 0\<rparr>"
    using t by (simp add: forcedLevers_def)
  have eq1: "calculateSystemState now a (Some s) dt = calculateSystemState now b (Some s) dt"
    using forced_idem [OF t, of now a dt] forced_idem [OF t, of now b dt] e by simp
  have eq2: "calculateSystemState now a (Some s) dt
        = calculateSystemState now (a\<lparr>coal_feed := 0, steam_turbine := 0\<rparr>) (Some s) dt"
    by (rule forced_idem [OF t])
  note d = default_deltaTime [of now a "Some s" dt]
  have boiler:
    "mainSteamTemp (calculateSystemState now a (Some s) dt)
        = Some (Num (orElse (mainSteamTemp
            (calculateBoilerResponse (leverParams (a\<lparr>coal_feed := 0, steam_turbine := 0\<rparr>))
               s (deltaTimeOf dt))) STEAM_TEMP_BASE))"
    "mainSteamPressure (calculateSystemState now a (Some s) dt)
        = Some (Num (orElse (mainSteamPressure
            (calculateBoilerResponse (leverParams (a\<lparr>coal_feed := 0, steam_turbine := 0\<rparr>))
               s (deltaTimeOf dt))) STEAM_PRESSURE_BASE))"
    "mainSteamFlow (calculateSystemState now a (Some s) dt)
        = Some (Num (orElse (mainSteamFlow
            (calculateBoilerResponse (leverParams (a\<lparr>coal_feed := 0, steam_turbine := 0\<rparr>))
               s (deltaTimeOf dt))) 0))"
    unfolding d normal_boiler [OF n] f by (rule refl)+
  have turbine:
    "turbineSpeed (calculateSystemState now a (Some s) dt)
        = Some (Num (orElse (turbineSpeed
            (calculateTurbineResponse (leverParams (a\<lparr>coal_feed := 0, steam_turbine := 0\<rparr>))
               (spread s (calculateBoilerResponse
                  (leverParams (a\<lparr>coal_feed := 0, steam_turbine := 0\<rparr>)) s (deltaTimeOf dt)))
               (deltaTimeOf dt))) 0))"
    "load (calculateSystemState now a (Some s) dt)
        = Some (Num (orElse (load
            (calculateTurbineResponse (leverParams (a\<lparr>coal_feed := 0, steam_turbine := 0\<rparr>))
               (spread s (calculateBoilerResponse
                  (leverParams (a\<lparr>coal_feed := 0, steam_turbine := 0\<rparr>)) s (deltaTimeOf dt)))
               (deltaTimeOf dt))) 0))"
    unfolding d normal_turbine [OF n] f by (rule refl)+
  have fuel:
    "coalLoadingRate (calculateSystemState now a (Some s) dt) = Some (Num 0)"
    "fuelConsumptionRate (calculateSystemState now a (Some s) dt) = Some (Num 0)"
    unfolding d normal_fuel_indicators [OF n] forced_params(1) [OF t] by simp_all
  have flow: "mainSteamFlow (calculateSystemState now a (Some s) dt)
        = Some (Num (orElse (mainSteamFlow s) 0 * exp (- 0.05 * deltaTimeOf dt)))"
    unfolding d by (rule no_fuel_flow [OF n forced_params(1) [OF t]])
  have speed: "turbineSpeed (calculateSystemState now a (Some s) dt)
        = Some (Num (orElse (turbineSpeed s) 1800 * exp (- 0.03 * deltaTimeOf dt)))"
    unfolding d by (rule valve_closed_fields(1) [OF n forced_params(2) [OF t]])
  show ?thesis
    using eq1 eq2 boiler turbine fuel flow speed by (intro conjI)
qed

theorem tripped_noninterference_witness:
  "calculateSystemState 0 (allLevers 100) (Some ((resetSystem 0)\<lparr>trip := Some True\<rparr>)) (Some 1)
     = calculateSystemState 0 ((allLevers 100)\<lparr>coal_feed := 0, steam_turbine := 0\<rparr>)
         (Some ((resetSystem 0)\<lparr>trip := Some True\<rparr>)) (Some 1)
   \<and> coalLoadingRate (calculateSystemState 0 (allLevers 100)
         (Some ((resetSystem 0)\<lparr>trip := Some True\<rparr>)) (Some 1)) = Some (Num 0)
   \<and> turbineSpeed (calculateSystemState 0 (allLevers 100)
         (Some ((resetSystem 0)\<lparr>trip := Some True\<rparr>)) (Some 1))
       = Some (Num (1800 * exp (- 0.03)))"
proof -
  let ?s = "(resetSystem 0)\<lparr>trip := Some True\<rparr>"
  have h1: "trip ?s = Some True" by simp
  have h2: "shutdownTime ?s = Some (Num 0)" by (simp add: resetSystem_def)
  have h3: "agreeOffFuelThrottle (allLevers 100)
              ((allLevers 100)\<lparr>coal_feed := 0, steam_turbine := 0\<rparr>)"
    by (simp add: agreeOffFuelThrottle_def)
  have v: "orElse (turbineSpeed ?s) 1800 * exp (- 0.03 * deltaTimeOf (Some 1))
             = 1800 * exp (- 0.03)"
    by (simp add: orElse_def deltaTimeOf_def resetSystem_def initialSystemState_def)
  note th = tripped_noninterference [OF h1 h2 h3, of 0 "Some 1"]
  have a: "calculateSystemState 0 (allLevers 100) (Some ?s) (Some 1)
     = calculateSystemState 0 ((allLevers 100)\<lparr>coal_feed := 0, steam_turbine := 0\<rparr>)
         (Some ?s) (Some 1)"
    using th by (elim conjE)
  have b: "coalLoadingRate (calculateSystemState 0 (allLevers 100) (Some ?s) (Some 1))
             = Some (Num 0)"
    using th by (elim conjE)
  have c: "turbineSpeed (calculateSystemState 0 (allLevers 100) (Some ?s) (Some 1))
       = Some (Num (orElse (turbineSpeed ?s) 1800 * exp (- 0.03 * deltaTimeOf (Some 1))))"
    using th by (elim conjE)
  show ?thesis using a b c unfolding v by (intro conjI)
qed

subsection \<open>A time step of zero or less\<close>

text \<open>
  Claim C4, as the code has it. \<open>calculateSystemState\<close> has no check on \<open>dt\<close>: a
  value of zero or less goes through the same formulas as any other. For \<open>dt = 0\<close>,
  outside the shutdown block, and a previous state whose \<open>mainSteamTemp\<close>,
  \<open>mainSteamPressure\<close> and \<open>turbineSpeed\<close> are nonzero numbers and whose
  \<open>mainSteamFlow\<close> and \<open>load\<close> are numbers, the five primary properties of the result
  equal those of the previous state. (The other properties are recomputed from the
  levers, and the result is not the previous state.)
\<close>

theorem zero_dt_primary_unchanged:
  assumes "\<not> shuttingDown (Some s)"
    and "mainSteamTemp s = Some (Num T)" and "T \<noteq> 0"
    and "mainSteamPressure s = Some (Num P)" and "P \<noteq> 0"
    and "turbineSpeed s = Some (Num R)" and "R \<noteq> 0"
    and "mainSteamFlow s = Some (Num F)" and "load s = Some (Num L)"
  shows "mainSteamTemp (calculateSystemState now lv (Some s) (Some 0)) = mainSteamTemp s
    \<and> mainSteamPressure (calculateSystemState now lv (Some s) (Some 0)) = mainSteamPressure s
    \<and> mainSteamFlow (calculateSystemState now lv (Some s) (Some 0)) = mainSteamFlow s
    \<and> turbineSpeed (calculateSystemState now lv (Some s) (Some 0)) = turbineSpeed s
    \<and> load (calculateSystemState now lv (Some s) (Some 0)) = load s"
  using assms(2-)
  by (simp add: normal_boiler [OF assms(1)] normal_turbine [OF assms(1)]
        boiler_zero_dt turbine_zero_dt spread_keeps boiler_absent orElse_def)

theorem zero_dt_primary_unchanged_witness:
  "mainSteamTemp (calculateSystemState 0 (allLevers 50)
       (Some ((resetSystem 0)\<lparr>mainSteamTemp := Some (Num 500),
          mainSteamPressure := Some (Num 12), turbineSpeed := Some (Num 900)\<rparr>)) (Some 0))
     = Some (Num 500)"
proof -
  let ?s = "(resetSystem 0)\<lparr>mainSteamTemp := Some (Num 500),
          mainSteamPressure := Some (Num 12), turbineSpeed := Some (Num 900)\<rparr>"
  have h1: "\<not> shuttingDown (Some ?s)" by (simp add: shuttingDown_def resetSystem_def)
  have h2: "mainSteamTemp ?s = Some (Num 500)" "(500::real) \<noteq> 0"
    "mainSteamPressure ?s = Some (Num 12)" "(12::real) \<noteq> 0"
    "turbineSpeed ?s = Some (Num 900)" "(900::real) \<noteq> 0"
    "mainSteamFlow ?s = Some (Num 0)" "load ?s = Some (Num 0)"
    by (simp_all add: resetSystem_def initialSystemState_def)
  show ?thesis
    using zero_dt_primary_unchanged [OF h1 h2, of 0 "allLevers 50"] by simp
qed

text \<open>
  The result for \<open>dt \<le> 0\<close> is not the previous state. Right after reset and shutdown, a
  call with \<open>dt = -1\<close> moves the countdown from 10 to 11; right after reset, a call with
  \<open>dt = 0\<close> and all levers at 0 returns a steam temperature of 540 where the state has 0.
\<close>

theorem invalid_dt_counterexample:
  "shutdownTime (shutdownSystem (resetSystem 0)) = Some (Num 10)
   \<and> shutdownTime (calculateSystemState 0 (allLevers 0)
         (Some (shutdownSystem (resetSystem 0))) (Some (- 1))) = Some (Num 11)
   \<and> mainSteamTemp (resetSystem 0) = Some (Num 0)
   \<and> mainSteamTemp (calculateSystemState 0 (allLevers 0) (Some (resetSystem 0)) (Some 0))
       = Some (Num 540)"
proof -
  have a: "shutdownTime (shutdownSystem (resetSystem 0)) = Some (Num 10)"
    by (simp add: shutdownSystem_def)
  have b: "shutdownTime (calculateSystemState 0 (allLevers 0)
         (Some (shutdownSystem (resetSystem 0))) (Some (- 1))) = Some (Num 11)"
    by (simp add: shutdown_result [OF a])
  have n: "\<not> shuttingDown (Some (resetSystem 0))"
    by (simp add: shuttingDown_def resetSystem_def)
  have c: "mainSteamTemp (resetSystem 0) = Some (Num 0)"
    by (simp add: resetSystem_def initialSystemState_def)
  have d: "mainSteamTemp (calculateSystemState 0 (allLevers 0) (Some (resetSystem 0)) (Some 0))
       = Some (Num 540)"
    by (simp add: normal_boiler [OF n] boiler_zero_dt c orElse_def STEAM_TEMP_BASE_def)
  show ?thesis using a b c d by blast
qed

subsection \<open>The shutdown countdown\<close>

text \<open>
  Claim C6. During the countdown each primary value of the result is to be at most its
  previous value (the shutdown block is headed ``During shutdown, reduce all values
  gradually''). The code breaks this on the state that the store holds after reset
  and shutdown: its countdown is 10 and its five primary values are 0, the block reads
  the temperature, the speed and the pressure with their \<open>||\<close> defaults (540, 1800 and
  16.5), and one step of a second returns a steam temperature of 537.3, a turbine speed
  of 1764 and a steam pressure of 14.85, each above the previous 0. The countdown
  itself goes from 10 to 9.
\<close>

theorem shutdown_after_reset_rises:
  "shutdownTime (shutdownSystem (resetSystem 0)) = Some (Num 10)
   \<and> mainSteamTemp (shutdownSystem (resetSystem 0)) = Some (Num 0)
   \<and> turbineSpeed (shutdownSystem (resetSystem 0)) = Some (Num 0)
   \<and> mainSteamPressure (shutdownSystem (resetSystem 0)) = Some (Num 0)
   \<and> load (shutdownSystem (resetSystem 0)) = Some (Num 0)
   \<and> mainSteamFlow (shutdownSystem (resetSystem 0)) = Some (Num 0)
   \<and> mainSteamTemp (calculateSystemState 0 (allLevers 0)
         (Some (shutdownSystem (resetSystem 0))) (Some 1)) = Some (Num 537.3)
   \<and> turbineSpeed (calculateSystemState 0 (allLevers 0)
         (Some (shutdownSystem (resetSystem 0))) (Some 1)) = Some (Num 1764)
   \<and> mainSteamPressure (calculateSystemState 0 (allLevers 0)
         (Some (shutdownSystem (resetSystem 0))) (Some 1)) = Some (Num 14.85)
   \<and> shutdownTime (calculateSystemState 0 (allLevers 0)
         (Some (shutdownSystem (resetSystem 0))) (Some 1)) = Some (Num 9)"
proof -
  have a: "shutdownTime (shutdownSystem (resetSystem 0)) = Some (Num 10)"
    by (simp add: shutdownSystem_def)
  have c: "mainSteamTemp (shutdownSystem (resetSystem 0)) = Some (Num 0)"
    "turbineSpeed (shutdownSystem (resetSystem 0)) = Some (Num 0)"
    "mainSteamPressure (shutdownSystem (resetSystem 0)) = Some (Num 0)"
    "load (shutdownSystem (resetSystem 0)) = Some (Num 0)"
    "mainSteamFlow (shutdownSystem (resetSystem 0)) = Some (Num 0)"
    by (simp_all add: shutdownSystem_def resetSystem_def initialSystemState_def)
  show ?thesis
    by (simp add: shutdown_result [OF a] a c orElse_def
          STEAM_TEMP_BASE_def STEAM_PRESSURE_BASE_def)
qed

text \<open>
  What the block does keep: for a countdown in \<open>(0, 10]\<close>, strictly positive
  \<open>mainSteamTemp\<close>, \<open>turbineSpeed\<close> and \<open>mainSteamPressure\<close>, non-negative \<open>load\<close> and
  \<open>mainSteamFlow\<close>, and \<open>dt > 0\<close>, the result has the temperature times 0.995, the speed
  times 0.98, and load, flow and pressure times \<open>max(0, (shutdownTime - dt) / 10)\<close>,
  each at most its previous value.
\<close>

lemma shutdown_block_decay:
  assumes "shutdownTime s = Some (Num st)" and "0 < st" and "st \<le> 10" and "0 < dt"
    and "mainSteamTemp s = Some (Num T)" and "0 < T"
    and "turbineSpeed s = Some (Num R)" and "0 < R"
    and "mainSteamPressure s = Some (Num P)" and "0 < P"
    and "load s = Some (Num L)" and "0 \<le> L"
    and "mainSteamFlow s = Some (Num F)" and "0 \<le> F"
  shows "mainSteamTemp (calculateSystemState now lv (Some s) (Some dt)) = Some (Num (T * 0.995))
    \<and> T * 0.995 \<le> T
    \<and> turbineSpeed (calculateSystemState now lv (Some s) (Some dt)) = Some (Num (R * 0.98))
    \<and> R * 0.98 \<le> R
    \<and> load (calculateSystemState now lv (Some s) (Some dt))
        = Some (Num (L * max 0 ((st - dt) / 10)))
    \<and> L * max 0 ((st - dt) / 10) \<le> L
    \<and> mainSteamFlow (calculateSystemState now lv (Some s) (Some dt))
        = Some (Num (F * max 0 ((st - dt) / 10)))
    \<and> F * max 0 ((st - dt) / 10) \<le> F
    \<and> mainSteamPressure (calculateSystemState now lv (Some s) (Some dt))
        = Some (Num (P * max 0 ((st - dt) / 10)))
    \<and> P * max 0 ((st - dt) / 10) \<le> P
    \<and> shutdownTime (calculateSystemState now lv (Some s) (Some dt))
        = Some (Num (max 0 (st - dt)))
    \<and> trip (calculateSystemState now lv (Some s) (Some dt)) = Some True"
proof -
  define k where "k = max 0 ((st - dt) / 10)"
  have k: "0 \<le> k" "k \<le> 1" using assms(2-4) by (simp_all add: k_def)
  have m: "x * k \<le> x" if "0 \<le> x" for x :: real
    using that k mult_left_le by blast
  have fields:
    "mainSteamTemp (calculateSystemState now lv (Some s) (Some dt)) = Some (Num (T * 0.995))"
    "turbineSpeed (calculateSystemState now lv (Some s) (Some dt)) = Some (Num (R * 0.98))"
    "load (calculateSystemState now lv (Some s) (Some dt)) = Some (Num (L * k))"
    "mainSteamFlow (calculateSystemState now lv (Some s) (Some dt)) = Some (Num (F * k))"
    "mainSteamPressure (calculateSystemState now lv (Some s) (Some dt)) = Some (Num (P * k))"
    "shutdownTime (calculateSystemState now lv (Some s) (Some dt)) = Some (Num (max 0 (st - dt)))"
    "trip (calculateSystemState now lv (Some s) (Some dt)) = Some True"
    using assms(5-)
    by (simp_all add: shutdown_result [OF assms(1,2)] orElse_def k_def)
  have "T * 0.995 \<le> T" "R * 0.98 \<le> R" using assms(6,8) by simp_all
  moreover have "L * k \<le> L" "F * k \<le> F" "P * k \<le> P"
    using m assms(10,12,14) by simp_all
  ultimately show ?thesis using fields unfolding k_def by blast
qed

subsection \<open>After the countdown\<close>

text \<open>
  Claim C7, as the code has it. Once the countdown is 0 with \<open>trip\<close> true,
  \<open>calculateSystemState\<close> leaves the shutdown block and runs the three stages with fuel
  and throttle forced to zero. The multiplicative decay stops and \<open>trip\<close> stays true, the
  result carries no countdown (the store keeps its 0), and a \<open>mainSteamFlow\<close> and \<open>load\<close>
  of 0 stay 0 (for a \<open>steam_flow\<close> lever that is not negative). The values are not held,
  though: a nonzero turbine speed \<open>R\<close> goes to \<open>R * e^(-0.03 * dt)\<close>, the coast-down of
  the smoothing towards a target of 0.
\<close>

theorem after_countdown_behaviour:
  assumes "trip s = Some True" and "shutdownTime s = Some (Num 0)"
    and "turbineSpeed s = Some (Num R)" and "R \<noteq> 0"
    and "load s = Some (Num 0)" and "mainSteamFlow s = Some (Num 0)"
    and "0 \<le> steam_flow lv"
  shows "trip (calculateSystemState now lv (Some s) (Some dt)) = Some True
    \<and> shutdownTime (calculateSystemState now lv (Some s) (Some dt)) = None
    \<and> mainSteamFlow (calculateSystemState now lv (Some s) (Some dt)) = Some (Num 0)
    \<and> load (calculateSystemState now lv (Some s) (Some dt)) = Some (Num 0)
    \<and> turbineSpeed (calculateSystemState now lv (Some s) (Some dt))
        = Some (Num (R * exp (- 0.03 * dt)))"
proof -
  have n: "\<not> shuttingDown (Some s)" using assms(2) by (simp add: shuttingDown_def)
  have t: "tripped (Some s)" using assms(1) by (simp add: tripped_def orFalse_def)
  have m: "min 0 (steam_flow lv / 100 * 600) = 0" using assms(7) by simp
  have a: "trip (calculateSystemState now lv (Some s) (Some dt)) = Some True"
    using t by (simp add: trip_out)
  have b: "mainSteamFlow (calculateSystemState now lv (Some s) (Some dt)) = Some (Num 0)"
    using assms(6) by (simp add: no_fuel_flow [OF n forced_params(1) [OF t]] orElse_def)
  have l0: "orElse (load s) 0 = 0" using assms(5) by (simp add: orElse_def)
  have c: "load (calculateSystemState now lv (Some s) (Some dt)) = Some (Num 0)"
    unfolding valve_closed_fields(2) [OF n forced_params(2) [OF t]] m l0
    by (simp add: smoothApproach_def)
  have d: "turbineSpeed (calculateSystemState now lv (Some s) (Some dt))
        = Some (Num (R * exp (- 0.03 * dt)))"
    using assms(3,4)
    by (simp add: valve_closed_fields(1) [OF n forced_params(2) [OF t]] orElse_def)
  show ?thesis
    using a b c d normal_absent [OF n] by blast
qed

theorem after_countdown_behaviour_witness:
  "turbineSpeed (calculateSystemState 0 (allLevers 50)
       (Some ((resetSystem 0)\<lparr>trip := Some True, mainSteamTemp := Some (Num 500),
          turbineSpeed := Some (Num 1000)\<rparr>)) (Some 1))
     = Some (Num (1000 * exp (- 0.03)))"
proof -
  let ?s = "(resetSystem 0)\<lparr>trip := Some True, mainSteamTemp := Some (Num 500),
          turbineSpeed := Some (Num 1000)\<rparr>"
  have h: "trip ?s = Some True" "shutdownTime ?s = Some (Num 0)"
    "turbineSpeed ?s = Some (Num 1000)" "(1000::real) \<noteq> 0" "load ?s = Some (Num 0)"
    "mainSteamFlow ?s = Some (Num 0)" "0 \<le> steam_flow (allLevers 50)"
    by (simp_all add: resetSystem_def initialSystemState_def allLevers_def)
  show ?thesis
    using after_countdown_behaviour [OF h, of 0 1] by simp
qed

text \<open>
  A state as the countdown leaves it (load, flow and pressure at 0, \<open>trip\<close> true,
  countdown 0) with a temperature of 500 and a speed of 1000: one more tick of a second
  changes the speed, and the pressure of the result is no longer 0.
\<close>

theorem after_countdown_counterexample:
  "turbineSpeed (calculateSystemState 0 (allLevers 0)
       (Some ((resetSystem 0)\<lparr>trip := Some True, mainSteamTemp := Some (Num 500),
          turbineSpeed := Some (Num 1000)\<rparr>)) (Some 1))
     \<noteq> turbineSpeed ((resetSystem 0)\<lparr>trip := Some True, mainSteamTemp := Some (Num 500),
          turbineSpeed := Some (Num 1000)\<rparr>)
   \<and> mainSteamPressure ((resetSystem 0)\<lparr>trip := Some True, mainSteamTemp := Some (Num 500),
          turbineSpeed := Some (Num 1000)\<rparr>) = Some (Num 0)
   \<and> mainSteamPressure (calculateSystemState 0 (allLevers 0)
       (Some ((resetSystem 0)\<lparr>trip := Some True, mainSteamTemp := Some (Num 500),
          turbineSpeed := Some (Num 1000)\<rparr>)) (Some 1))
     \<noteq> Some (Num 0)"
proof -
  let ?s = "(resetSystem 0)\<lparr>trip := Some True, mainSteamTemp := Some (Num 500),
          turbineSpeed := Some (Num 1000)\<rparr>"
  have n: "\<not> shuttingDown (Some ?s)" by (simp add: shuttingDown_def resetSystem_def)
  have t: "tripped (Some ?s)" by (simp add: tripped_def orFalse_def)
  have e: "exp (- (3 / 100)) \<noteq> (1::real)" by simp
  have a: "turbineSpeed (calculateSystemState 0 (allLevers 0) (Some ?s) (Some 1))
             \<noteq> turbineSpeed ?s"
    using e by (simp add: valve_closed_fields(1) [OF n forced_params(2) [OF t]] orElse_def)
  have b: "mainSteamPressure ?s = Some (Num 0)"
    by (simp add: resetSystem_def initialSystemState_def)
  show ?thesis using a b normal_pressure_nonzero [OF n] by blast
qed

subsection \<open>Frequency\<close>

text \<open>
  Claim C8, as the code has it. Outside the shutdown block the \<open>frequency\<close> of the
  result is computed from the load of the result, by \<open>calculateFrequencyFromLoad\<close>:
  50 Hz plus half of \<open>load / 600 - 1\<close>. The result of the shutdown block has no
  \<open>frequency\<close>. (The turbine stage computes \<open>50 + (newRPM - 3000) / 60\<close> into a local
  that it does not return.)
\<close>

theorem frequency_from_load:
  "(\<not> shuttingDown cs \<longrightarrow>
      frequency (calculateSystemState now lv cs dt)
        = loadFrequency (load (calculateSystemState now lv cs dt)))
   \<and> (shuttingDown cs \<longrightarrow> frequency (calculateSystemState now lv cs dt) = None)"
  using normal_frequency shutdown_absent by blast

theorem frequency_from_load_witness:
  "frequency (calculateSystemState 0 (allLevers 50) (Some (resetSystem 0)) (Some 1))
     = loadFrequency (load (calculateSystemState 0 (allLevers 50) (Some (resetSystem 0)) (Some 1)))
   \<and> frequency (calculateSystemState 0 (allLevers 50) (Some (shutdownSystem (resetSystem 0)))
        (Some 1)) = None"
proof -
  have n: "\<not> shuttingDown (Some (resetSystem 0))"
    by (simp add: shuttingDown_def resetSystem_def)
  have y: "shuttingDown (Some (shutdownSystem (resetSystem 0)))"
    by (simp add: shuttingDown_def shutdownSystem_def)
  show ?thesis
    using n y
      frequency_from_load [of "Some (resetSystem 0)" 0 "allLevers 50" "Some 1"]
      frequency_from_load [of "Some (shutdownSystem (resetSystem 0))" 0 "allLevers 50" "Some 1"]
    by blast
qed

text \<open>
  Right after reset, with all levers at 0 and a tick of a second, the load stays 0 and
  the frequency of the result is 49.5, while the speed of the result is
  \<open>1800 * e^(-0.03)\<close>, for which the droop formula gives less than 30.
\<close>

theorem frequency_droop_counterexample:
  "frequency (calculateSystemState 0 (allLevers 0) (Some (resetSystem 0)) (Some 1))
     \<noteq> droopFrequency
         (turbineSpeed (calculateSystemState 0 (allLevers 0) (Some (resetSystem 0)) (Some 1)))"
proof -
  let ?s = "resetSystem 0"
  have n: "\<not> shuttingDown (Some ?s)" by (simp add: shuttingDown_def resetSystem_def)
  have v: "steamTurbine (leverParams (forcedLevers (Some ?s) (allLevers 0))) = 0"
    by (simp add: leverParams_def forcedLevers_def allLevers_def)
  have r: "turbineSpeed ?s = Some (Num 0)" "load ?s = Some (Num 0)"
    by (simp_all add: resetSystem_def initialSystemState_def)
  have sp: "turbineSpeed (calculateSystemState 0 (allLevers 0) (Some ?s) (Some 1))
              = Some (Num (1800 * exp (- 0.03)))"
    by (simp add: valve_closed_fields(1) [OF n v] r orElse_def)
  have l0: "orElse (load ?s) 0 = 0" "min 0 (steam_flow (allLevers 0) / 100 * 600) = 0"
    by (simp_all add: r orElse_def allLevers_def)
  have ld: "load (calculateSystemState 0 (allLevers 0) (Some ?s) (Some 1)) = Some (Num 0)"
    unfolding valve_closed_fields(2) [OF n v] l0
    by (simp add: smoothApproach_def)
  have fr: "frequency (calculateSystemState 0 (allLevers 0) (Some ?s) (Some 1))
              = Some (Num 49.5)"
    by (simp add: normal_frequency [OF n] ld loadFrequency_def)
  define x :: real where "x = exp (- 0.03)"
  have "x \<le> 1" by (simp add: x_def)
  then have "50 + (1800 * x - 3000) / 60 < (49.5::real)" by (simp add: field_simps)
  then have ne: "(49.5::real) \<noteq> 50 + (1800 * x - 3000) / 60" by (rule less_imp_neq [symmetric])
  show ?thesis
    unfolding fr sp droopFrequency_def x_def [symmetric] using ne by simp
qed

subsection \<open>Bounds on the primary values\<close>

text \<open>
  Claim C5, as the code has it. The stages do not clamp the primary values; what
  the smoothing keeps is the following. For lever values in 0 to 100, \<open>dt > 0\<close> and a
  previous state outside the shutdown block whose \<open>mainSteamPressure\<close>,
  \<open>mainSteamFlow\<close>, \<open>turbineSpeed\<close> and \<open>load\<close> are numbers that are not negative, with
  \<open>mainSteamFlow\<close> at most 500, \<open>turbineSpeed\<close> at most 3600 and \<open>load\<close> at most 600:
  the result has a \<open>mainSteamPressure\<close> that is not negative, a \<open>mainSteamFlow\<close> of at
  most 500 and a \<open>load\<close> of at most 600; if its \<open>mainSteamTemp\<close> is at least 40 (the
  condenser reference of the turbine stage), its \<open>mainSteamFlow\<close>, \<open>turbineSpeed\<close> and
  \<open>load\<close> are not negative either; and if its \<open>mainSteamTemp\<close> is moreover at most
  2900, its \<open>turbineSpeed\<close> is at most 3600. No bound is kept on \<open>mainSteamTemp\<close> itself.
\<close>

theorem primary_bounds:
  assumes "leversInRange lv" and "0 < dt" and "\<not> shuttingDown (Some s)"
    and "numGe 0 (mainSteamPressure s)"
    and "numGe 0 (mainSteamFlow s)" and "numLe 500 (mainSteamFlow s)"
    and "numGe 0 (turbineSpeed s)" and "numLe 3600 (turbineSpeed s)"
    and "numGe 0 (load s)" and "numLe 600 (load s)"
  shows "numGe 0 (mainSteamPressure (calculateSystemState now lv (Some s) (Some dt)))
    \<and> numLe 500 (mainSteamFlow (calculateSystemState now lv (Some s) (Some dt)))
    \<and> numLe 600 (load (calculateSystemState now lv (Some s) (Some dt)))
    \<and> (numGe 40 (mainSteamTemp (calculateSystemState now lv (Some s) (Some dt)))
        \<longrightarrow> numGe 0 (mainSteamFlow (calculateSystemState now lv (Some s) (Some dt)))
            \<and> numGe 0 (turbineSpeed (calculateSystemState now lv (Some s) (Some dt)))
            \<and> numGe 0 (load (calculateSystemState now lv (Some s) (Some dt))))
    \<and> (numGe 40 (mainSteamTemp (calculateSystemState now lv (Some s) (Some dt)))
        \<and> numLe 2900 (mainSteamTemp (calculateSystemState now lv (Some s) (Some dt)))
        \<longrightarrow> numLe 3600 (turbineSpeed (calculateSystemState now lv (Some s) (Some dt))))"
proof -
  define p where "p = leverParams (forcedLevers (Some s) lv)"
  define B where "B = calculateBoilerResponse p s dt"
  note pr = params_in_range [OF assms(1), of "Some s", folded p_def]
  have rd: "0 \<le> SMOOTH_FACTORS_pressure * dt" "0 \<le> SMOOTH_FACTORS_steamFlow * dt"
    "0 \<le> SMOOTH_FACTORS_rpm * dt" "0 \<le> SMOOTH_FACTORS_steamTurbine * dt"
    using assms(2)
    by (simp_all add: SMOOTH_FACTORS_pressure_def SMOOTH_FACTORS_steamFlow_def
          SMOOTH_FACTORS_rpm_def SMOOTH_FACTORS_steamTurbine_def)
  obtain nt tp tf where b:
    "mainSteamTemp B = Some (Num nt)"
    "mainSteamPressure B
       = Some (Num (smoothApproach (orElse (mainSteamPressure s) STEAM_PRESSURE_BASE) tp
                      SMOOTH_FACTORS_pressure dt))"
    "mainSteamFlow B
       = Some (Num (smoothApproach (orElse (mainSteamFlow s) 0) tf SMOOTH_FACTORS_steamFlow dt))"
    "0 \<le> coalFeed p \<longrightarrow> 0 \<le> tp" "0 \<le> coalFeed p \<and> 0 \<le> nt \<longrightarrow> 0 \<le> tf"
    "0 \<le> coalFeed p \<and> coalFeed p \<le> 100 \<longrightarrow> tf \<le> 500"
    using boiler_targets [of p s dt] unfolding B_def by blast
  define np where
    "np = smoothApproach (orElse (mainSteamPressure s) STEAM_PRESSURE_BASE) tp
            SMOOTH_FACTORS_pressure dt"
  define nf where
    "nf = smoothApproach (orElse (mainSteamFlow s) 0) tf SMOOTH_FACTORS_steamFlow dt"
  define te where "te = orElse (Some (Num nt)) STEAM_TEMP_BASE"
  have np: "0 < np"
    unfolding np_def using rd(1) numGe_orElse [OF assms(4)] b(4) pr(1)
    by (intro smoothApproach_pos) (simp_all add: STEAM_PRESSURE_BASE_def)
  have nf500: "nf \<le> 500"
    unfolding nf_def using rd(2) numLe_orElse0 [OF assms(6)] b(6) pr(1,5)
    by (intro smoothApproach_le) simp_all
  have c: "mainSteamTemp (spread s B) = Some (Num nt)"
    "mainSteamPressure (spread s B) = Some (Num np)"
    "mainSteamFlow (spread s B) = Some (Num nf)"
    "turbineSpeed (spread s B) = turbineSpeed s" "load (spread s B) = load s"
    unfolding np_def nf_def B_def
    using b(1-3) [unfolded B_def]
    by (simp_all add: spread_boiler spread_keeps boiler_absent)
  obtain tr tl where t:
    "turbineSpeed (calculateTurbineResponse p (spread s B) dt)
       = Some (Num (smoothApproach (orElse (turbineSpeed s) 1800) tr SMOOTH_FACTORS_rpm dt))"
    "load (calculateTurbineResponse p (spread s B) dt)
       = Some (Num (smoothApproach (orElse (load s) 0) tl SMOOTH_FACTORS_steamTurbine dt))"
    "tl \<le> steamFlow p / 100 * 600"
    "0 \<le> nf \<and> 40 \<le> te \<and> 0 \<le> np \<and> 0 \<le> steamTurbine p \<and> 0 \<le> steamFlow p
       \<longrightarrow> 0 \<le> tr \<and> 0 \<le> tl"
    "0 \<le> nf \<and> nf \<le> 500 \<and> 40 \<le> te \<and> te \<le> 2900 \<and> 0 \<le> np
       \<and> 0 \<le> steamTurbine p \<and> steamTurbine p \<le> 100
       \<longrightarrow> tr \<le> 3600"
    using turbine_targets [of p "spread s B" dt] np
    unfolding c te_def by (auto simp: orElse_def)
  have out:
    "mainSteamTemp (calculateSystemState now lv (Some s) (Some dt)) = Some (Num te)"
    "mainSteamPressure (calculateSystemState now lv (Some s) (Some dt)) = Some (Num np)"
    "mainSteamFlow (calculateSystemState now lv (Some s) (Some dt)) = Some (Num nf)"
    "turbineSpeed (calculateSystemState now lv (Some s) (Some dt))
       = Some (Num (smoothApproach (orElse (turbineSpeed s) 1800) tr SMOOTH_FACTORS_rpm dt))"
    "load (calculateSystemState now lv (Some s) (Some dt))
       = Some (Num (smoothApproach (orElse (load s) 0) tl SMOOTH_FACTORS_steamTurbine dt))"
    using np b(1-3) t(1,2)
    unfolding normal_boiler [OF assms(3)] normal_turbine [OF assms(3)]
      p_def [symmetric] B_def [symmetric] np_def [symmetric] nf_def [symmetric] te_def
    by (simp_all add: orElse_def)
  have tl600: "tl \<le> 600" using t(3) pr(4) by simp
  have l600: "smoothApproach (orElse (load s) 0) tl SMOOTH_FACTORS_steamTurbine dt \<le> 600"
    using rd(4) numLe_orElse0 [OF assms(10)] tl600 by (intro smoothApproach_le) simp_all
  have nf0: "0 \<le> nf" if "40 \<le> te"
  proof -
    have nt0: "0 \<le> nt"
      using that unfolding te_def by (simp add: orElse_def split: if_splits)
    show ?thesis
      unfolding nf_def using rd(2) numGe_orElse0 [OF assms(5)] b(5) pr(1) nt0
      by (intro smoothApproach_ge) simp_all
  qed
  have cond: "0 \<le> nf
      \<and> 0 \<le> smoothApproach (orElse (turbineSpeed s) 1800) tr SMOOTH_FACTORS_rpm dt
      \<and> 0 \<le> smoothApproach (orElse (load s) 0) tl SMOOTH_FACTORS_steamTurbine dt"
    if "40 \<le> te"
  proof -
    have tg: "0 \<le> tr" "0 \<le> tl" using t(4) nf0 [OF that] that np pr(2,3) by simp_all
    have r0: "0 \<le> smoothApproach (orElse (turbineSpeed s) 1800) tr SMOOTH_FACTORS_rpm dt"
      using rd(3) numGe_orElse [OF assms(7), of 1800] tg(1)
      by (intro smoothApproach_ge) simp_all
    have l0: "0 \<le> smoothApproach (orElse (load s) 0) tl SMOOTH_FACTORS_steamTurbine dt"
      using rd(4) numGe_orElse0 [OF assms(9)] tg(2) by (intro smoothApproach_ge) simp_all
    show ?thesis using nf0 [OF that] r0 l0 by blast
  qed
  have speed: "smoothApproach (orElse (turbineSpeed s) 1800) tr SMOOTH_FACTORS_rpm dt \<le> 3600"
    if "40 \<le> te" "te \<le> 2900"
  proof -
    have "tr \<le> 3600" using t(5) nf0 [OF that(1)] nf500 that np pr(2,6) by simp
    then show ?thesis
      using rd(3) numLe_orElse [OF assms(8), of 1800] by (intro smoothApproach_le) simp_all
  qed
  show ?thesis
    using np nf500 l600 cond speed unfolding out by (simp add: numGe_def numLe_def)
qed

theorem primary_bounds_witness:
  "numGe 0 (mainSteamPressure (calculateSystemState 0 (allLevers 50)
       (Some ((resetSystem 0)\<lparr>mainSteamTemp := Some (Num 540)\<rparr>)) (Some 1)))
   \<and> numLe 600 (load (calculateSystemState 0 (allLevers 50)
       (Some ((resetSystem 0)\<lparr>mainSteamTemp := Some (Num 540)\<rparr>)) (Some 1)))
   \<and> numGe 0 (turbineSpeed (calculateSystemState 0 (allLevers 50)
       (Some ((resetSystem 0)\<lparr>mainSteamTemp := Some (Num 540)\<rparr>)) (Some 1)))
   \<and> numLe 3600 (turbineSpeed (calculateSystemState 0 (allLevers 50)
       (Some ((resetSystem 0)\<lparr>mainSteamTemp := Some (Num 540)\<rparr>)) (Some 1)))"
proof -
  let ?s = "(resetSystem 0)\<lparr>mainSteamTemp := Some (Num 540)\<rparr>"
  let ?p = "leverParams (forcedLevers (Some ?s) (allLevers 50))"
  have h: "leversInRange (allLevers 50)" "(0::real) < 1" "\<not> shuttingDown (Some ?s)"
    "numGe 0 (mainSteamPressure ?s)"
    "numGe 0 (mainSteamFlow ?s)" "numLe 500 (mainSteamFlow ?s)"
    "numGe 0 (turbineSpeed ?s)" "numLe 3600 (turbineSpeed ?s)"
    "numGe 0 (load ?s)" "numLe 600 (load ?s)"
    by (simp_all add: leversInRange_def allLevers_def shuttingDown_def resetSystem_def
          initialSystemState_def numGe_def numLe_def)
  have pv: "coalFeed ?p = 50" "airSupply ?p = 50"
    by (simp_all add: leverParams_def forcedLevers_def allLevers_def tripped_def orFalse_def
          orElse_def resetSystem_def initialSystemState_def STEAM_TEMP_BASE_def)
  have c: "orElse (mainSteamTemp ?s) STEAM_TEMP_BASE = 540"
    by (simp add: orElse_def)
  define t :: real where
    "t = 540 + ((50 / 100 * COAL_CALORIFIC_VALUE
               * (max 0.4 (1 - \<bar>50 / 100 / max (50 / 100) 0.01 - 15.5\<bar> / 15.5)
                    * (0.7 + 50 / 100 * 0.3))
              - 540 * 0.02 * 1) / (4.186 * 1000)) * 1 / 3600"
  have t40: "40 \<le> t" "t \<le> 2900" by (simp_all add: t_def COAL_CALORIFIC_VALUE_def)
  have nt: "mainSteamTemp (calculateBoilerResponse ?p ?s 1)
              = Some (Num (smoothApproach 540 t SMOOTH_FACTORS_temperature 1))"
    unfolding boiler_temp_field pv c t_def by (rule refl)
  have ge: "40 \<le> smoothApproach 540 t SMOOTH_FACTORS_temperature 1"
    using t40(1) by (intro smoothApproach_ge) (simp_all add: SMOOTH_FACTORS_temperature_def)
  have le: "smoothApproach 540 t SMOOTH_FACTORS_temperature 1 \<le> 2900"
    using t40(2) by (intro smoothApproach_le) (simp_all add: SMOOTH_FACTORS_temperature_def)
  have tmp: "numGe 40 (mainSteamTemp (calculateSystemState 0 (allLevers 50) (Some ?s) (Some 1)))"
    "numLe 2900 (mainSteamTemp (calculateSystemState 0 (allLevers 50) (Some ?s) (Some 1)))"
    unfolding normal_boiler(1) [OF h(3)] nt using ge le
    by (simp_all add: numGe_def numLe_def orElse_def)
  show ?thesis
    using primary_bounds [OF h, of 0] tmp by blast
qed

text \<open>
  The bound of 600 on the steam temperature is not kept: from a state at 600, with
  every lever at 100 and a tick of a second, the heat input exceeds the loss and the
  result is above 600.
\<close>

theorem temperature_bound_counterexample:
  "leversInRange (allLevers 100)
   \<and> numGe 200 (mainSteamTemp ((resetSystem 0)\<lparr>mainSteamTemp := Some (Num 600)\<rparr>))
   \<and> numLe 600 (mainSteamTemp ((resetSystem 0)\<lparr>mainSteamTemp := Some (Num 600)\<rparr>))
   \<and> \<not> numLe 600 (mainSteamTemp (calculateSystemState 0 (allLevers 100)
          (Some ((resetSystem 0)\<lparr>mainSteamTemp := Some (Num 600)\<rparr>)) (Some 1)))"
proof -
  let ?s = "(resetSystem 0)\<lparr>mainSteamTemp := Some (Num 600)\<rparr>"
  let ?p = "leverParams (forcedLevers (Some ?s) (allLevers 100))"
  have n: "\<not> shuttingDown (Some ?s)" by (simp add: shuttingDown_def resetSystem_def)
  have pv: "coalFeed ?p = 100" "airSupply ?p = 100"
    by (simp_all add: leverParams_def forcedLevers_def allLevers_def tripped_def orFalse_def
          orElse_def resetSystem_def initialSystemState_def STEAM_TEMP_BASE_def)
  have c: "orElse (mainSteamTemp ?s) STEAM_TEMP_BASE = 600"
    by (simp add: orElse_def)
  define t :: real where
    "t = 600 + ((100 / 100 * COAL_CALORIFIC_VALUE
               * (max 0.4 (1 - \<bar>100 / 100 / max (100 / 100) 0.01 - 15.5\<bar> / 15.5)
                    * (0.7 + 100 / 100 * 0.3))
              - 600 * 0.02 * 1) / (4.186 * 1000)) * 1 / 3600"
  have t600: "600 < t" by (simp add: t_def COAL_CALORIFIC_VALUE_def)
  have nt: "mainSteamTemp (calculateBoilerResponse ?p ?s 1)
              = Some (Num (smoothApproach 600 t SMOOTH_FACTORS_temperature 1))"
    unfolding boiler_temp_field pv c t_def by (rule refl)
  have gt: "600 < smoothApproach 600 t SMOOTH_FACTORS_temperature 1"
    using t600 by (intro smoothApproach_gt) (simp_all add: SMOOTH_FACTORS_temperature_def)
  have out: "\<not> numLe 600 (mainSteamTemp (calculateSystemState 0 (allLevers 100) (Some ?s)
                (Some 1)))"
    unfolding normal_boiler(1) [OF n] nt using gt by (simp add: numLe_def orElse_def)
  have pre: "leversInRange (allLevers 100)" "numGe 200 (mainSteamTemp ?s)"
    "numLe 600 (mainSteamTemp ?s)"
    by (simp_all add: leversInRange_def allLevers_def numGe_def numLe_def)
  show ?thesis using pre out by blast
qed

end
